theory Spec2Isabelle
  imports Complex_Main
begin

section \<open>Values, documents and Python dictionaries\<close>

text \<open>
  The repository functions of \<^verbatim>\<open>models.py\<close> exchange Python dictionaries with a
  MongoDB server through pymongo. A stored value is a BSON value. Python's unbounded
  integers are \<open>int\<close> (the driver refuses to encode one outside the 64-bit range, see
  \<open>encodable\<close> below). A double is the rational number it denotes when it is finite, an
  infinity (\<open>Infinite True\<close> is the positive one) or NaN; the sign of zero is not kept.
  A string is the list of its code points, which the type \<open>char\<close> limits to the code
  points below 256. A date is a number of milliseconds; an ObjectId is the natural
  number its twelve bytes encode. A document is an association list in field order, as
  a Python dict and a BSON document are ordered.
\<close>

datatype double = Finite rat | Infinite bool | NaN

datatype val =
    VNull
  | VBool bool
  | VInt int
  | VDouble double
  | VStr string
  | VDate int
  | VOid nat
  | VList "val list"
  | VDoc "(string \<times> val) list"

type_synonym doc = "(string \<times> val) list"

text \<open>\<^verbatim>\<open>k in d\<close>, \<^verbatim>\<open>d.get(k, default)\<close>, \<^verbatim>\<open>d[k] = v\<close>, \<^verbatim>\<open>d.update(u)\<close>,
  \<^verbatim>\<open>d.setdefault(k, v)\<close> and \<^verbatim>\<open>d.pop(k)\<close> of a Python dict. Assigning to a key that is
  present keeps its position; a new key is appended.\<close>

definition has_key :: "doc \<Rightarrow> string \<Rightarrow> bool" where
  "has_key d k = (map_of d k \<noteq> None)"

definition get_or :: "doc \<Rightarrow> string \<Rightarrow> val \<Rightarrow> val" where
  "get_or d k dflt = (case map_of d k of None \<Rightarrow> dflt | Some v \<Rightarrow> v)"

fun dict_set :: "'k \<Rightarrow> 'v \<Rightarrow> ('k \<times> 'v) list \<Rightarrow> ('k \<times> 'v) list" where
  "dict_set k v [] = [(k, v)]"
| "dict_set k v ((k', v') # d) =
     (if k' = k then (k, v) # d else (k', v') # dict_set k v d)"

fun dict_update :: "doc \<Rightarrow> doc \<Rightarrow> doc" where
  "dict_update d [] = d"
| "dict_update d ((k, v) # u) = dict_update (dict_set k v d) u"

definition dict_del :: "string \<Rightarrow> doc \<Rightarrow> doc" where
  "dict_del k d = filter (\<lambda>kv. fst kv \<noteq> k) d"

definition setdefault :: "string \<Rightarrow> val \<Rightarrow> doc \<Rightarrow> doc" where
  "setdefault k v d = (if has_key d k then d else d @ [(k, v)])"

text \<open>Python truthiness, as used by \<^verbatim>\<open>if not record\<close> and \<^verbatim>\<open>if user_id and email\<close>.\<close>

fun truthy :: "val \<Rightarrow> bool" where
  "truthy VNull = False"
| "truthy (VBool b) = b"
| "truthy (VInt i) = (i \<noteq> 0)"
| "truthy (VDouble x) = (x \<noteq> Finite 0)"
| "truthy (VStr s) = (s \<noteq> [])"
| "truthy (VDate t) = True"
| "truthy (VOid n) = True"
| "truthy (VList xs) = (xs \<noteq> [])"
| "truthy (VDoc d) = (d \<noteq> [])"

text \<open>The exceptions the modelled code can raise or receive from the driver.\<close>

datatype error =
    ValueError string
  | AttributeError
  | TypeError
  | OverflowError
  | InvalidId
  | ConnectionFailure
  | DuplicateKeyError
  | BulkWriteError
  | WriteError
  | OperationFailure string
  | CollectionInvalid

text \<open>\<^verbatim>\<open>s.lower()\<close>: only a string has the method; any other value raises
  AttributeError. Among the code points below 256 the upper-case letters are A to Z and
  the letters from 192 to 222 other than the multiplication sign 215; each has its
  lower-case letter 32 places further on.\<close>

definition lower_char :: "char \<Rightarrow> char" where
  "lower_char c =
     (let n = (of_char c :: nat) in
      if (65 \<le> n \<and> n \<le> 90) \<or> (192 \<le> n \<and> n \<le> 222 \<and> n \<noteq> 215)
      then char_of (n + 32) else c)"

fun py_lower :: "val \<Rightarrow> error + val" where
  "py_lower (VStr s) = Inr (VStr (map lower_char s))"
| "py_lower _ = Inl AttributeError"


definition digit_val :: "char \<Rightarrow> nat option" where
  "digit_val c =
     (if 48 \<le> (of_char c :: nat) \<and> (of_char c :: nat) \<le> 57
      then Some (of_char c - 48) else None)"


definition is_space :: "char \<Rightarrow> bool" where
  "is_space c = ((of_char c :: nat) \<in> {9, 10, 11, 12, 13, 28, 29, 30, 31, 32, 133, 160})"

definition strip :: "string \<Rightarrow> string" where
  "strip s = rev (dropWhile is_space (rev (dropWhile is_space s)))"




section \<open>The database server\<close>

text \<open>
  pymongo and the MongoDB server are not part of the repository; the model below gives
  the documented behaviour of the calls \<^verbatim>\<open>models.py\<close> makes. Query filters are plain
  field/value dictionaries (query operators are outside the model), and a collection
  keeps its documents in insertion order.
\<close>

subsection \<open>Matching and ordering\<close>

text \<open>A number as the server compares it: integers and doubles compare by value across
  the two types. In the server's order NaN is below every other number and equal to
  itself.\<close>

fun num_of :: "val \<Rightarrow> double option" where
  "num_of (VInt i) = Some (Finite (of_int i))"
| "num_of (VDouble x) = Some x"
| "num_of _ = None"

fun dbl_less :: "double \<Rightarrow> double \<Rightarrow> bool" where
  "dbl_less (Finite x) (Finite y) = (x < y)"
| "dbl_less (Finite x) (Infinite b) = b"
| "dbl_less (Finite x) NaN = False"
| "dbl_less (Infinite a) (Finite y) = (\<not> a)"
| "dbl_less (Infinite a) (Infinite b) = (\<not> a \<and> b)"
| "dbl_less (Infinite a) NaN = False"
| "dbl_less NaN (Finite y) = True"
| "dbl_less NaN (Infinite b) = True"
| "dbl_less NaN NaN = False"

text \<open>Equality of a stored value and a query value: numbers compare by value across
  the numeric types, everything else by type and value.\<close>

definition mongo_eq :: "val \<Rightarrow> val \<Rightarrow> bool" where
  "mongo_eq a b =
     (case (num_of a, num_of b) of (Some x, Some y) \<Rightarrow> x = y | _ \<Rightarrow> a = b)"

text \<open>A filter entry \<^verbatim>\<open>{k: q}\<close> matches a document whose field \<open>k\<close> equals \<open>q\<close>, or is
  an array with an element equal to \<open>q\<close>; a missing field matches only \<^verbatim>\<open>None\<close>.\<close>

definition field_matches :: "val option \<Rightarrow> val \<Rightarrow> bool" where
  "field_matches fv q =
     (case fv of
        None \<Rightarrow> q = VNull
      | Some v \<Rightarrow> mongo_eq v q \<or> (case v of VList xs \<Rightarrow> list_ex (\<lambda>x. mongo_eq x q) xs | _ \<Rightarrow> False))"

definition matches :: "doc \<Rightarrow> doc \<Rightarrow> bool" where
  "matches flt d = list_all (\<lambda>kq. field_matches (map_of d (fst kq)) (snd kq)) flt"

text \<open>The sort order of \<^verbatim>\<open>find(...).sort(key, direction)\<close>: BSON orders values by type
  first (a missing field sorts as null), then by value; the model compares numbers,
  strings, ObjectIds, booleans and dates by value and leaves documents and arrays of
  one type unordered among themselves. The server does not define the order of
  documents whose sort keys do not differ: \<open>tie\<close> ranks the documents in the order the
  server happens to yield them (lower rank first), and documents it ranks alike come in
  insertion order.\<close>

fun type_rank :: "val option \<Rightarrow> nat" where
  "type_rank None = 1"
| "type_rank (Some VNull) = 1"
| "type_rank (Some (VInt _)) = 2"
| "type_rank (Some (VDouble _)) = 2"
| "type_rank (Some (VStr _)) = 3"
| "type_rank (Some (VDoc _)) = 4"
| "type_rank (Some (VList _)) = 5"
| "type_rank (Some (VOid _)) = 7"
| "type_rank (Some (VBool _)) = 8"
| "type_rank (Some (VDate _)) = 9"

fun str_less :: "string \<Rightarrow> string \<Rightarrow> bool" where
  "str_less [] [] = False"
| "str_less [] (_ # _) = True"
| "str_less (_ # _) [] = False"
| "str_less (a # as) (b # bs) =
     ((of_char a :: nat) < of_char b \<or> (a = b \<and> str_less as bs))"

fun same_type_less :: "val \<Rightarrow> val \<Rightarrow> bool" where
  "same_type_less (VStr a) (VStr b) = str_less a b"
| "same_type_less (VOid a) (VOid b) = (a < b)"
| "same_type_less (VBool a) (VBool b) = (\<not> a \<and> b)"
| "same_type_less (VDate a) (VDate b) = (a < b)"
| "same_type_less a b =
     (case (num_of a, num_of b) of (Some x, Some y) \<Rightarrow> dbl_less x y | _ \<Rightarrow> False)"

definition bson_less :: "val option \<Rightarrow> val option \<Rightarrow> bool" where
  "bson_less a b =
     (type_rank a < type_rank b \<or>
      (type_rank a = type_rank b \<and>
       (case (a, b) of (Some x, Some y) \<Rightarrow> same_type_less x y | _ \<Rightarrow> False)))"

datatype direction = ASCENDING | DESCENDING

definition key_before :: "direction \<Rightarrow> string \<Rightarrow> doc \<Rightarrow> doc \<Rightarrow> bool" where
  "key_before dir k a b =
     (case dir of
        ASCENDING \<Rightarrow> bson_less (map_of a k) (map_of b k)
      | DESCENDING \<Rightarrow> bson_less (map_of b k) (map_of a k))"

definition comes_before :: "(doc \<Rightarrow> nat) \<Rightarrow> direction \<Rightarrow> string \<Rightarrow> doc \<Rightarrow> doc \<Rightarrow> bool" where
  "comes_before tie dir k a b =
     (key_before dir k a b \<or> (\<not> key_before dir k b a \<and> tie a < tie b))"

fun insert_sorted :: "(doc \<Rightarrow> nat) \<Rightarrow> direction \<Rightarrow> string \<Rightarrow> doc \<Rightarrow> doc list \<Rightarrow> doc list" where
  "insert_sorted tie dir k d [] = [d]"
| "insert_sorted tie dir k d (x # xs) =
     (if comes_before tie dir k x d then x # insert_sorted tie dir k d xs else d # x # xs)"

definition sort_docs :: "(doc \<Rightarrow> nat) \<Rightarrow> string \<Rightarrow> direction \<Rightarrow> doc list \<Rightarrow> doc list" where
  "sort_docs tie k dir ds = foldr (insert_sorted tie dir k) ds []"

subsection \<open>Validators\<close>

text \<open>The fragment of \<^verbatim>\<open>$jsonSchema\<close> the Schema Registry uses: \<^verbatim>\<open>bsonType\<close> (one
  type or a list of alternatives, empty when the keyword is absent), \<^verbatim>\<open>required\<close>,
  \<^verbatim>\<open>properties\<close>, \<^verbatim>\<open>minimum\<close>, \<^verbatim>\<open>enum\<close> and \<^verbatim>\<open>items\<close>.\<close>

datatype schema = Schema
  (bsonType: "string list")
  (required: "string list")
  (properties: "(string \<times> schema) list")
  (minimum: "rat option")
  (enum: "val list option")
  (items: "schema option")

fun bson_type_of :: "val \<Rightarrow> string" where
  "bson_type_of VNull = ''null''"
| "bson_type_of (VBool _) = ''bool''"
| "bson_type_of (VInt i) = (if - (2 ^ 31) \<le> i \<and> i < 2 ^ 31 then ''int'' else ''long'')"
| "bson_type_of (VDouble _) = ''double''"
| "bson_type_of (VStr _) = ''string''"
| "bson_type_of (VDate _) = ''date''"
| "bson_type_of (VOid _) = ''objectId''"
| "bson_type_of (VList _) = ''array''"
| "bson_type_of (VDoc _) = ''object''"

definition has_bson_type :: "val \<Rightarrow> string \<Rightarrow> bool" where
  "has_bson_type v t =
     (t = bson_type_of v \<or> (t = ''number'' \<and> num_of v \<noteq> None))"

fun validates :: "schema \<Rightarrow> val \<Rightarrow> bool" where
  "validates (Schema tys req props mn en its) v =
     ((tys = [] \<or> list_ex (has_bson_type v) tys) \<and>
      (case en of None \<Rightarrow> True | Some vs \<Rightarrow> list_ex (mongo_eq v) vs) \<and>
      (case (mn, num_of v) of (Some m, Some x) \<Rightarrow> \<not> dbl_less x (Finite m) | _ \<Rightarrow> True) \<and>
      (case v of
         VDoc d \<Rightarrow>
           list_all (has_key d) req \<and>
           list_all (\<lambda>ks. case map_of d (fst ks) of None \<Rightarrow> True
                                | Some x \<Rightarrow> validates (snd ks) x) props
       | VList xs \<Rightarrow>
           (case its of None \<Rightarrow> True | Some s \<Rightarrow> list_all (validates s) xs)
       | _ \<Rightarrow> True))"

text \<open>A collection without a validator accepts every document.\<close>

definition accepts :: "schema option \<Rightarrow> doc \<Rightarrow> bool" where
  "accepts vd d = (case vd of None \<Rightarrow> True | Some s \<Rightarrow> validates s (VDoc d))"

subsection \<open>Collections, the index catalog and the connection\<close>

text \<open>A live index as \<^verbatim>\<open>index_information()\<close> reports it: its key (field names with
  their directions) and every other entry of its description (\<^verbatim>\<open>v\<close>, and the options
  it was created with).\<close>

record index_info =
  ikey :: "(string \<times> val) list"
  info :: doc

record collection =
  docs :: "doc list"
  validator :: "schema option"
  indexes :: "(string \<times> index_info) list"

text \<open>The calls that change the index catalog are recorded as they are issued, so that a
  run of the Reconciler can be asked which indexes it dropped and created.\<close>

datatype index_call =
    DropIndex string string
  | CreateIndex string string "(string \<times> val) list" doc

text \<open>\<open>faults\<close> is the number of server calls that still succeed before the connection
  fails (\<open>None\<close>: it never fails). A call on a failed connection raises and changes
  nothing.\<close>

record db =
  colls :: "(string \<times> collection) list"
  faults :: "nat option"
  index_calls :: "index_call list"

definition server_call :: "db \<Rightarrow> (db \<Rightarrow> (error + 'a) \<times> db) \<Rightarrow> (error + 'a) \<times> db" where
  "server_call s f =
     (case faults s of
        None \<Rightarrow> f s
      | Some n \<Rightarrow> (case n of 0 \<Rightarrow> (Inl ConnectionFailure, s)
                   | Suc m \<Rightarrow> f (s\<lparr>faults := Some m\<rparr>)))"

text \<open>The driver encodes what it sends after it has got a connection, and raises
  OverflowError for an integer outside the 64-bit range: then nothing is sent.\<close>

fun encodable :: "val \<Rightarrow> bool" where
  "encodable (VInt i) = (- (2 ^ 63) \<le> i \<and> i < 2 ^ 63)"
| "encodable (VList xs) = list_all encodable xs"
| "encodable (VDoc d) = list_all encodable (map snd d)"
| "encodable _ = True"

definition driver_call :: "db \<Rightarrow> val list \<Rightarrow> (db \<Rightarrow> (error + 'a) \<times> db) \<Rightarrow> (error + 'a) \<times> db" where
  "driver_call s sent f =
     (if faults s = Some 0 then (Inl ConnectionFailure, s)
      else if \<not> list_all encodable sent then (Inl OverflowError, s)
      else server_call s f)"

text \<open>A collection is created with the index \<^verbatim>\<open>_id_\<close> on its primary identifier; a
  collection that does not exist yet is created by the first write to it.\<close>

definition id_index :: "string \<times> index_info" where
  "id_index = (''_id_'', \<lparr>ikey = [(''_id'', VInt 1)], info = [(''v'', VInt 2)]\<rparr>)"

definition new_coll :: "schema option \<Rightarrow> collection" where
  "new_coll vd = \<lparr>docs = [], validator = vd, indexes = [id_index]\<rparr>"

definition get_coll :: "db \<Rightarrow> string \<Rightarrow> collection" where
  "get_coll s n = (case map_of (colls s) n of None \<Rightarrow> new_coll None | Some c \<Rightarrow> c)"

definition put_coll :: "string \<Rightarrow> collection \<Rightarrow> db \<Rightarrow> db" where
  "put_coll n c s = s\<lparr>colls := dict_set n c (colls s)\<rparr>"

subsection \<open>Writes and reads\<close>

text \<open>A write is refused when the document fails the collection's validator
  (validation level strict, action error: the server's defaults), when its \<^verbatim>\<open>_id\<close> is
  taken, or when it repeats the key of a unique index.\<close>

definition key_of :: "(string \<times> val) list \<Rightarrow> doc \<Rightarrow> val list" where
  "key_of ks d = map (\<lambda>kd. get_or d (fst kd) VNull) ks"

definition is_unique :: "index_info \<Rightarrow> bool" where
  "is_unique ix = (case map_of (info ix) ''unique'' of None \<Rightarrow> False | Some v \<Rightarrow> truthy v)"

definition unique_clash :: "(string \<times> index_info) list \<Rightarrow> doc list \<Rightarrow> doc \<Rightarrow> bool" where
  "unique_clash ixs ds d =
     list_ex (\<lambda>ni. is_unique (snd ni) \<and>
                list_ex (\<lambda>d'. list_all2 mongo_eq (key_of (ikey (snd ni)) d')
                                                  (key_of (ikey (snd ni)) d)) ds) ixs"

definition id_clash :: "doc list \<Rightarrow> doc \<Rightarrow> bool" where
  "id_clash ds d = list_ex (\<lambda>d'. mongo_eq (get_or d' ''_id'' VNull) (get_or d ''_id'' VNull)) ds"

text \<open>A generated ObjectId is one no document of the collection carries.\<close>

definition oid_of :: "doc \<Rightarrow> nat" where
  "oid_of d = (case map_of d ''_id'' of Some (VOid n) \<Rightarrow> n | _ \<Rightarrow> 0)"

definition fresh_oid :: "doc list \<Rightarrow> nat" where
  "fresh_oid ds = Suc (fold max (map oid_of ds) 0)"

text \<open>The stored form of an inserted document: pymongo adds a generated \<^verbatim>\<open>_id\<close> when
  the document has none, and the server keeps \<^verbatim>\<open>_id\<close> as the first field.\<close>

definition with_id :: "doc list \<Rightarrow> doc \<Rightarrow> doc" where
  "with_id ds d =
     (case map_of d ''_id'' of
        None \<Rightarrow> (''_id'', VOid (fresh_oid ds)) # d
      | Some v \<Rightarrow> (''_id'', v) # dict_del ''_id'' d)"

definition store_doc :: "collection \<Rightarrow> doc \<Rightarrow> error + collection" where
  "store_doc c d =
     (if \<not> accepts (validator c) d then Inl WriteError
      else if id_clash (docs c) d \<or> unique_clash (indexes c) (docs c) d then Inl DuplicateKeyError
      else Inr (c\<lparr>docs := docs c @ [d]\<rparr>))"

text \<open>\<^verbatim>\<open>insert_one\<close> returns the \<^verbatim>\<open>inserted_id\<close>.\<close>

definition insert_one :: "string \<Rightarrow> doc \<Rightarrow> db \<Rightarrow> (error + val) \<times> db" where
  "insert_one cname d s0 = driver_call s0 [VDoc d] (\<lambda>s.
     let c = get_coll s cname; d' = with_id (docs c) d in
     case store_doc c d' of
       Inl e \<Rightarrow> (Inl e, s)
     | Inr c' \<Rightarrow> (Inr (get_or d' ''_id'' VNull), put_coll cname c' s))"

text \<open>\<^verbatim>\<open>insert_many\<close> (ordered): an empty list is refused by the driver; otherwise the
  documents are inserted in order up to the first one the server refuses, those before
  it stay inserted, and the driver raises BulkWriteError.\<close>

fun store_all :: "collection \<Rightarrow> doc list \<Rightarrow> val list \<Rightarrow> (error + val list) \<times> collection" where
  "store_all c [] ids = (Inr ids, c)"
| "store_all c (d # ds) ids =
     (let d' = with_id (docs c) d in
      case store_doc c d' of
        Inl e \<Rightarrow> (Inl BulkWriteError, c)
      | Inr c' \<Rightarrow> store_all c' ds (ids @ [get_or d' ''_id'' VNull]))"

definition insert_many :: "string \<Rightarrow> doc list \<Rightarrow> db \<Rightarrow> (error + val list) \<times> db" where
  "insert_many cname ds s0 =
     (if ds = [] then (Inl TypeError, s0)
      else driver_call s0 (map VDoc ds) (\<lambda>s.
        case store_all (get_coll s cname) ds [] of
          (r, c') \<Rightarrow> (r, if c' = get_coll s cname then s else put_coll cname c' s)))"

text \<open>The arithmetic of doubles (IEEE 754 binary64): the sum of two finite doubles is
  the exact sum rounded to the nearest double, to the one with the even significand when
  two are equally near, and to an infinity from \<open>2 ^ 1024 - 2 ^ 970\<close> on. \<open>floor_log2 x\<close>
  is the exponent \<open>e\<close> with \<open>2 ^ e \<le> x < 2 ^ (e + 1)\<close> of a positive \<open>x\<close>; doubles of
  exponent \<open>e\<close> are the multiples of \<open>2 ^ (e - 52)\<close>, and those below \<open>2 ^ - 1022\<close> the
  multiples of \<open>2 ^ - 1074\<close>.\<close>

function bit_length :: "int \<Rightarrow> int" where
  "bit_length n = (if n \<le> 0 then 0 else 1 + bit_length (n div 2))"
  by pat_completeness auto
termination
  by (relation "measure nat") auto

declare bit_length.simps [simp del]

definition pow2 :: "int \<Rightarrow> rat" where
  "pow2 e = (if 0 \<le> e then 2 ^ nat e else 1 / 2 ^ nat (- e))"

definition floor_log2 :: "rat \<Rightarrow> int" where
  "floor_log2 x =
     (if 1 \<le> x then bit_length \<lfloor>x\<rfloor> - 1 else - bit_length (\<lceil>1 / x\<rceil> - 1))"

definition round_half_even :: "rat \<Rightarrow> int" where
  "round_half_even x =
     (let f = \<lfloor>x\<rfloor>; d = x - of_int f in
      if d < 1 / 2 then f else if 1 / 2 < d then f + 1 else if even f then f else f + 1)"

definition round_double :: "rat \<Rightarrow> double" where
  "round_double x =
     (if x = 0 then Finite 0
      else let ulp = pow2 (max (floor_log2 \<bar>x\<bar>) (- 1022) - 52);
               y = of_int (round_half_even (x / ulp)) * ulp
           in if 1024 \<le> floor_log2 \<bar>y\<bar> then Infinite (0 < x) else Finite y)"

fun dbl_add :: "double \<Rightarrow> double \<Rightarrow> double" where
  "dbl_add (Finite x) (Finite y) = round_double (x + y)"
| "dbl_add (Finite x) (Infinite b) = Infinite b"
| "dbl_add (Finite x) NaN = NaN"
| "dbl_add (Infinite a) (Finite y) = Infinite a"
| "dbl_add (Infinite a) (Infinite b) = (if a = b then Infinite a else NaN)"
| "dbl_add (Infinite a) NaN = NaN"
| "dbl_add NaN y = NaN"

text \<open>The two update operators the code uses: \<^verbatim>\<open>{'$set': fields}\<close> and
  \<^verbatim>\<open>{'$inc': {field: amount}}\<close>. \<^verbatim>\<open>$inc\<close> needs a numeric amount and a numeric or
  missing field (a missing field is set to the amount). The sum of two integers is an
  integer, and the server refuses the update when it leaves the 64-bit range; a sum
  with a double is the sum of doubles, the integer converted first.\<close>

datatype update = Op_set doc | Op_inc string val

fun num_add :: "val \<Rightarrow> val \<Rightarrow> val option" where
  "num_add (VInt a) (VInt b) = (if encodable (VInt (a + b)) then Some (VInt (a + b)) else None)"
| "num_add (VInt a) (VDouble y) = Some (VDouble (dbl_add (round_double (of_int a)) y))"
| "num_add (VDouble x) (VInt b) = Some (VDouble (dbl_add x (round_double (of_int b))))"
| "num_add (VDouble x) (VDouble y) = Some (VDouble (dbl_add x y))"
| "num_add _ _ = None"

fun apply_update :: "update \<Rightarrow> doc \<Rightarrow> error + doc" where
  "apply_update (Op_set u) d = Inr (dict_update d u)"
| "apply_update (Op_inc k a) d =
     (if num_of a = None then Inl WriteError
      else (case map_of d k of
              None \<Rightarrow> Inr (dict_set k a d)
            | Some cur \<Rightarrow> (case num_add cur a of
                             None \<Rightarrow> Inl WriteError
                           | Some v \<Rightarrow> Inr (dict_set k v d))))"

fun split_first :: "('a \<Rightarrow> bool) \<Rightarrow> 'a list \<Rightarrow> ('a list \<times> 'a \<times> 'a list) option" where
  "split_first P [] = None"
| "split_first P (x # xs) =
     (if P x then Some ([], x, xs)
      else (case split_first P xs of
              None \<Rightarrow> None
            | Some (pre, y, post) \<Rightarrow> Some (x # pre, y, post)))"

text \<open>Whether an update changes a field some unique index is built on.\<close>

definition touches_unique :: "(string \<times> index_info) list \<Rightarrow> doc \<Rightarrow> doc \<Rightarrow> bool" where
  "touches_unique ixs d d' =
     list_ex (\<lambda>ni. is_unique (snd ni) \<and> key_of (ikey (snd ni)) d \<noteq> key_of (ikey (snd ni)) d') ixs"

text \<open>\<^verbatim>\<open>update_one\<close> updates the first matching document and returns
  \<^verbatim>\<open>(matched_count, modified_count)\<close>: a document the update leaves as it is counts as
  matched and not as modified. \<^verbatim>\<open>_id\<close> cannot be changed. An empty \<^verbatim>\<open>$set\<close> changes
  nothing (MongoDB 5.0 and later; earlier servers refuse it).\<close>

fun sent_update :: "update \<Rightarrow> val" where
  "sent_update (Op_set u) = VDoc u"
| "sent_update (Op_inc k a) = a"

definition update_one :: "string \<Rightarrow> doc \<Rightarrow> update \<Rightarrow> db \<Rightarrow> (error + nat \<times> nat) \<times> db" where
  "update_one cname flt u s0 = driver_call s0 [VDoc flt, sent_update u] (\<lambda>s.
     let c = get_coll s cname in
     case split_first (matches flt) (docs c) of
       None \<Rightarrow> (Inr (0, 0), s)
     | Some (pre, d, post) \<Rightarrow>
         (case apply_update u d of
            Inl e \<Rightarrow> (Inl e, s)
          | Inr d' \<Rightarrow>
              if d' = d then (Inr (1, 0), s)
              else if map_of d' ''_id'' \<noteq> map_of d ''_id'' then (Inl WriteError, s)
              else if \<not> accepts (validator c) d' then (Inl WriteError, s)
              else if touches_unique (indexes c) d d' \<and> unique_clash (indexes c) (pre @ post) d'
                   then (Inl DuplicateKeyError, s)
              else (Inr (1, 1), put_coll cname (c\<lparr>docs := pre @ d' # post\<rparr>) s)))"

text \<open>\<^verbatim>\<open>delete_one\<close> and \<^verbatim>\<open>delete_many\<close> return the \<^verbatim>\<open>deleted_count\<close>. Neither is given
  a \<^verbatim>\<open>session\<close> argument anywhere in \<^verbatim>\<open>models.py\<close>, so each takes effect at once.\<close>

definition delete_one :: "string \<Rightarrow> doc \<Rightarrow> db \<Rightarrow> (error + nat) \<times> db" where
  "delete_one cname flt s0 = driver_call s0 [VDoc flt] (\<lambda>s.
     let c = get_coll s cname in
     case split_first (matches flt) (docs c) of
       None \<Rightarrow> (Inr 0, s)
     | Some (pre, d, post) \<Rightarrow> (Inr 1, put_coll cname (c\<lparr>docs := pre @ post\<rparr>) s))"

definition delete_many :: "string \<Rightarrow> doc \<Rightarrow> db \<Rightarrow> (error + nat) \<times> db" where
  "delete_many cname flt s0 = driver_call s0 [VDoc flt] (\<lambda>s.
     let c = get_coll s cname; gone = filter (matches flt) (docs c) in
     if gone = [] then (Inr 0, s)
     else (Inr (length gone),
           put_coll cname (c\<lparr>docs := filter (\<lambda>d. \<not> matches flt d) (docs c)\<rparr>) s))"

definition find_all :: "string \<Rightarrow> doc \<Rightarrow> db \<Rightarrow> (error + doc list) \<times> db" where
  "find_all cname flt s0 = driver_call s0 [VDoc flt] (\<lambda>s.
     (Inr (filter (matches flt) (docs (get_coll s cname))), s))"

definition find_sorted ::
    "(doc \<Rightarrow> nat) \<Rightarrow> string \<Rightarrow> doc \<Rightarrow> string \<Rightarrow> direction \<Rightarrow> db \<Rightarrow> (error + doc list) \<times> db" where
  "find_sorted tie cname flt k dir s0 = driver_call s0 [VDoc flt] (\<lambda>s.
     (Inr (sort_docs tie k dir (filter (matches flt) (docs (get_coll s cname)))), s))"


section \<open>Python helpers of the repository functions\<close>

text \<open>\<^verbatim>\<open>str(x)\<close>. The text of \<^verbatim>\<open>None\<close>, a bool, an integer, a string and an ObjectId
  (24 hexadecimal digits) is Python's. The text of a double is Python's for an infinity,
  NaN and an integral value below \<open>10 ^ 16\<close> in size (from there on Python writes an
  exponent); for any other double, a date, a list or a dict the model does not compute
  Python's text and yields a placeholder (no theorem evaluates \<open>py_str\<close> there).\<close>

function show_nat :: "nat \<Rightarrow> string" where
  "show_nat n =
     (if n < 10 then [char_of (48 + n)]
      else show_nat (n div 10) @ [char_of (48 + n mod 10)])"
  by pat_completeness auto
termination
  by (relation "measure id") auto

declare show_nat.simps [simp del]

definition show_int :: "int \<Rightarrow> string" where
  "show_int i = (if i < 0 then CHR ''-'' # show_nat (nat (- i)) else show_nat (nat i))"

definition hex_char :: "nat \<Rightarrow> char" where
  "hex_char n = (if n < 10 then char_of (48 + n) else char_of (87 + n))"

definition hex24 :: "nat \<Rightarrow> string" where
  "hex24 n = map (\<lambda>i. hex_char ((n div 16 ^ i) mod 16)) (rev [0..<24])"

fun py_str :: "val \<Rightarrow> string" where
  "py_str VNull = ''None''"
| "py_str (VBool b) = (if b then ''True'' else ''False'')"
| "py_str (VInt i) = show_int i"
| "py_str (VStr s) = s"
| "py_str (VOid n) = hex24 n"
| "py_str (VDouble (Finite r)) =
     (if r = of_int \<lfloor>r\<rfloor> \<and> \<bar>r\<bar> < 10 ^ 16 then show_int \<lfloor>r\<rfloor> @ ''.0'' else ''<float>'')"
| "py_str (VDouble (Infinite b)) = (if b then ''inf'' else ''-inf'')"
| "py_str (VDouble NaN) = ''nan''"
| "py_str (VDate t) = ''<datetime>''"
| "py_str (VList xs) = ''<list>''"
| "py_str (VDoc d) = ''<dict>''"

text \<open>\<^verbatim>\<open>ObjectId(x)\<close>: an ObjectId is taken as it is, a string of 24 hexadecimal digits
  is parsed, and \<^verbatim>\<open>ObjectId(None)\<close> generates a new ObjectId, one that no stored document
  carries; any other string raises InvalidId and any other value TypeError.\<close>

definition hex_val :: "char \<Rightarrow> nat option" where
  "hex_val c =
     (let n = (of_char c :: nat) in
      if 48 \<le> n \<and> n \<le> 57 then Some (n - 48)
      else if 97 \<le> n \<and> n \<le> 102 then Some (n - 87)
      else if 65 \<le> n \<and> n \<le> 70 then Some (n - 55)
      else None)"

fun parse_hex :: "nat \<Rightarrow> string \<Rightarrow> nat option" where
  "parse_hex acc [] = Some acc"
| "parse_hex acc (c # cs) =
     (case hex_val c of None \<Rightarrow> None | Some n \<Rightarrow> parse_hex (16 * acc + n) cs)"

definition all_docs :: "db \<Rightarrow> doc list" where
  "all_docs s = concat (map (\<lambda>nc. docs (snd nc)) (colls s))"

fun ObjectId :: "db \<Rightarrow> val \<Rightarrow> error + val" where
  "ObjectId s (VOid n) = Inr (VOid n)"
| "ObjectId s (VStr t) =
     (if length t = 24 then
        (case parse_hex 0 t of None \<Rightarrow> Inl InvalidId | Some n \<Rightarrow> Inr (VOid n))
      else Inl InvalidId)"
| "ObjectId s VNull = Inr (VOid (fresh_oid (all_docs s)))"
| "ObjectId s _ = Inl TypeError"

text \<open>\<^verbatim>\<open>float(x)\<close>, used by \<^verbatim>\<open>normalize_shopping_list\<close>: the nearest double of an
  integer (OverflowError when that is an infinity), 0.0 or 1.0 for a bool, a double as
  it is, TypeError for \<^verbatim>\<open>None\<close>, a list, a dict, a date or an ObjectId. A string is
  read between white space as an optionally signed \<^verbatim>\<open>inf\<close>, \<^verbatim>\<open>infinity\<close> or \<^verbatim>\<open>nan\<close> in
  any case of letters, or as a decimal literal: digits, a point and an exponent, with
  at least one digit before or after the point, and single underscores between digits;
  its value is rounded to the nearest double. Any other text raises ValueError.\<close>

fun split_digits :: "string \<Rightarrow> nat list \<times> string" where
  "split_digits [] = ([], [])"
| "split_digits [c] = (case digit_val c of None \<Rightarrow> ([], [c]) | Some n \<Rightarrow> ([n], []))"
| "split_digits (c # u # cs) =
     (case digit_val c of
        None \<Rightarrow> ([], c # u # cs)
      | Some n \<Rightarrow>
          (case (if u = CHR ''_'' \<and> (case cs of [] \<Rightarrow> False | c' # _ \<Rightarrow> digit_val c' \<noteq> None)
                 then split_digits cs else split_digits (u # cs)) of
             (ds, rest) \<Rightarrow> (n # ds, rest)))"

definition digits_value :: "nat list \<Rightarrow> nat" where
  "digits_value ds = foldl (\<lambda>acc n. 10 * acc + n) 0 ds"

definition parse_exponent :: "string \<Rightarrow> int option" where
  "parse_exponent t =
     (case t of
        [] \<Rightarrow> Some 0
      | e # t1 \<Rightarrow>
          if e = CHR ''e'' \<or> e = CHR ''E'' then
            (let negative = (case t1 of [] \<Rightarrow> False | c # _ \<Rightarrow> c = CHR ''-'');
                 t2 = (case t1 of [] \<Rightarrow> []
                       | c # cs \<Rightarrow> if c = CHR ''-'' \<or> c = CHR ''+'' then cs else t1)
             in case split_digits t2 of
                  (ds, rest) \<Rightarrow>
                    if ds = [] \<or> rest \<noteq> [] then None
                    else Some (if negative then - int (digits_value ds) else int (digits_value ds)))
          else None)"

definition parse_decimal :: "string \<Rightarrow> rat option" where
  "parse_decimal t =
     (case split_digits t of
        (ip, t1) \<Rightarrow>
          (case (case t1 of
                   [] \<Rightarrow> ([], [])
                 | c # cs \<Rightarrow> if c = CHR ''.'' then split_digits cs else ([], t1)) of
             (fp, t2) \<Rightarrow>
               if ip = [] \<and> fp = [] then None
               else (case parse_exponent t2 of
                       None \<Rightarrow> None
                     | Some e \<Rightarrow>
                         Some (of_nat (digits_value (ip @ fp)) / 10 ^ length fp *
                               (if 0 \<le> e then 10 ^ nat e else 1 / 10 ^ nat (- e))))))"

definition parse_float :: "string \<Rightarrow> double option" where
  "parse_float t =
     (case strip t of
        [] \<Rightarrow> None
      | c # cs \<Rightarrow>
          (let negative = (c = CHR ''-'');
               body = (if c = CHR ''-'' \<or> c = CHR ''+'' then cs else c # cs);
               word = map lower_char body
           in if word = ''inf'' \<or> word = ''infinity'' then Some (Infinite (\<not> negative))
              else if word = ''nan'' then Some NaN
              else (case parse_decimal body of
                      None \<Rightarrow> None
                    | Some r \<Rightarrow> Some (round_double (if negative then - r else r)))))"

fun py_float :: "val \<Rightarrow> error + val" where
  "py_float (VInt i) =
     (case round_double (of_int i) of
        Finite r \<Rightarrow> Inr (VDouble (Finite r))
      | _ \<Rightarrow> Inl OverflowError)"
| "py_float (VBool b) = Inr (VDouble (Finite (if b then 1 else 0)))"
| "py_float (VDouble x) = Inr (VDouble x)"
| "py_float (VStr t) =
     (case parse_float t of None \<Rightarrow> Inl (ValueError ''float'') | Some x \<Rightarrow> Inr (VDouble x))"
| "py_float _ = Inl TypeError"

text \<open>Python's \<^verbatim>\<open>==\<close> on the values that occur as cache keys and index options:
  numbers and bools compare by value (NaN equals nothing), everything else by type and
  value.\<close>

fun py_num :: "val \<Rightarrow> double option" where
  "py_num (VInt i) = Some (Finite (of_int i))"
| "py_num (VDouble x) = Some x"
| "py_num (VBool b) = Some (Finite (if b then 1 else 0))"
| "py_num _ = None"

definition py_eq :: "val \<Rightarrow> val \<Rightarrow> bool" where
  "py_eq a b =
     (case (py_num a, py_num b) of (Some x, Some y) \<Rightarrow> x = y \<and> x \<noteq> NaN | _ \<Rightarrow> a = b)"

text \<open>Equality of two dicts does not depend on the order of their entries.\<close>

definition dict_eq :: "doc \<Rightarrow> doc \<Rightarrow> bool" where
  "dict_eq a b =
     (list_all (\<lambda>kv. case map_of b (fst kv) of None \<Rightarrow> False | Some v \<Rightarrow> py_eq (snd kv) v) a \<and>
      list_all (\<lambda>kv. has_key a (fst kv)) b)"




text \<open>\<^verbatim>\<open>get_shopping_lists.cache_clear()\<close>: \<^verbatim>\<open>get_shopping_lists\<close> is defined in
  \<^verbatim>\<open>models.py\<close> as a plain function (only \<^verbatim>\<open>get_user\<close> and \<^verbatim>\<open>get_user_by_email\<close> are
  wrapped in \<^verbatim>\<open>lru_cache\<close>), and a plain function has no attribute \<^verbatim>\<open>cache_clear\<close>:
  the attribute lookup raises AttributeError.\<close>

definition get_shopping_lists_cache_clear :: "error + unit" where
  "get_shopping_lists_cache_clear = Inl AttributeError"

text \<open>\<^verbatim>\<open>with db.client.start_session() as session: with session.start_transaction():\<close>
  commits the transaction when the body returns and aborts it when the body raises. An
  operation belongs to the transaction only when it is called with \<^verbatim>\<open>session=session\<close>.
  No call of \<^verbatim>\<open>models.py\<close> passes the session, so the transaction is empty: committing
  or aborting it contacts no server and leaves the data as the body left it.\<close>

definition in_transaction :: "(db \<Rightarrow> (error + 'a) \<times> db) \<Rightarrow> db \<Rightarrow> (error + 'a) \<times> db" where
  "in_transaction body s = body s"

section \<open>Repository functions\<close>

text \<open>
  Each function of \<^verbatim>\<open>models.py\<close> takes the database and returns its result (\<open>Inl\<close>:
  the exception that reaches the caller) with the database after the call. The clock
  (\<^verbatim>\<open>datetime.utcnow()\<close>), the random UUID (\<^verbatim>\<open>uuid.uuid4()\<close>) and werkzeug's
  \<^verbatim>\<open>generate_password_hash\<close> are arguments, and so is the order \<open>tie\<close> in which the
  server yields documents of equal sort key. Logging has no effect on results. A handler
  \<^verbatim>\<open>except Exception: log; raise\<close> passes the error on; a handler that returns a value
  replaces the error by that value. \<^verbatim>\<open>ValueError\<close> carries the key of the translated
  message.\<close>

subsection \<open>Reads\<close>

definition get_budgets :: "(doc \<Rightarrow> nat) \<Rightarrow> db \<Rightarrow> doc \<Rightarrow> (error + doc list) \<times> db" where
  "get_budgets tie s filter_kwargs = find_sorted tie ''budgets'' filter_kwargs ''created_at'' DESCENDING s"

definition get_bills :: "(doc \<Rightarrow> nat) \<Rightarrow> db \<Rightarrow> doc \<Rightarrow> (error + doc list) \<times> db" where
  "get_bills tie s filter_kwargs = find_sorted tie ''bills'' filter_kwargs ''due_date'' ASCENDING s"

definition get_shopping_items :: "(doc \<Rightarrow> nat) \<Rightarrow> db \<Rightarrow> doc \<Rightarrow> (error + doc list) \<times> db" where
  "get_shopping_items tie s filter_kwargs =
     find_sorted tie ''shopping_items'' filter_kwargs ''created_at'' DESCENDING s"

text \<open>\<^verbatim>\<open>normalize_shopping_list\<close> takes the clock for the two timestamps it defaults.\<close>

definition normalize_shopping_list :: "val \<Rightarrow> doc \<Rightarrow> error + doc" where
  "normalize_shopping_list now record =
     (case py_float (get_or record ''budget'' (VDouble (Finite 0))) of
        Inl e \<Rightarrow> Inl e
      | Inr budget \<Rightarrow>
          (case py_float (get_or record ''total_spent'' (VDouble (Finite 0))) of
             Inl e \<Rightarrow> Inl e
           | Inr total_spent \<Rightarrow> Inr
               [(''id'', VStr (py_str (get_or record ''_id'' (VStr [])))),
                (''name'', get_or record ''name'' (VStr [])),
                (''user_id'', get_or record ''user_id'' VNull),
                (''session_id'', get_or record ''session_id'' (VStr [])),
                (''budget'', budget),
                (''created_at'', get_or record ''created_at'' now),
                (''updated_at'', get_or record ''updated_at'' now),
                (''collaborators'', get_or record ''collaborators'' (VList [])),
                (''total_spent'', total_spent),
                (''status'', get_or record ''status'' (VStr ''active'')),
                (''items'', (case map_of record ''items'' of
                               Some (VList xs) \<Rightarrow> VList xs
                             | _ \<Rightarrow> VList []))]))"

fun normalize_all :: "val \<Rightarrow> doc list \<Rightarrow> error + doc list" where
  "normalize_all now [] = Inr []"
| "normalize_all now (r # rs) =
     (case normalize_shopping_list now r of
        Inl e \<Rightarrow> Inl e
      | Inr d \<Rightarrow> (case normalize_all now rs of Inl e \<Rightarrow> Inl e | Inr ds \<Rightarrow> Inr (d # ds)))"

definition get_shopping_lists ::
    "(doc \<Rightarrow> nat) \<Rightarrow> val \<Rightarrow> db \<Rightarrow> doc \<Rightarrow> (error + doc list) \<times> db" where
  "get_shopping_lists tie now s filter_kwargs =
     (case find_sorted tie ''shopping_lists'' filter_kwargs ''updated_at'' DESCENDING s of
        (Inl e, s') \<Rightarrow> (Inl e, s')
      | (Inr records, s') \<Rightarrow> (normalize_all now records, s'))"

text \<open>\<^verbatim>\<open>get_ficore_credit_transactions\<close> is defined twice in \<^verbatim>\<open>models.py\<close>; the second
  definition replaces the first (which sorted by \<^verbatim>\<open>created_at\<close> and re-raised), so this
  is the function a caller gets. It and \<^verbatim>\<open>get_credit_requests\<close> return an empty list on
  any error.\<close>

definition get_ficore_credit_transactions :: "(doc \<Rightarrow> nat) \<Rightarrow> db \<Rightarrow> doc \<Rightarrow> (error + doc list) \<times> db" where
  "get_ficore_credit_transactions tie s query =
     (case find_sorted tie ''ficore_credit_transactions'' query ''date'' DESCENDING s of
        (Inl e, s') \<Rightarrow> (Inr [], s')
      | (Inr records, s') \<Rightarrow> (Inr records, s'))"

definition get_credit_requests :: "(doc \<Rightarrow> nat) \<Rightarrow> db \<Rightarrow> doc \<Rightarrow> (error + doc list) \<times> db" where
  "get_credit_requests tie s query =
     (case find_sorted tie ''credit_requests'' query ''created_at'' DESCENDING s of
        (Inl e, s') \<Rightarrow> (Inr [], s')
      | (Inr records, s') \<Rightarrow> (Inr records, s'))"

subsection \<open>Creates\<close>

text \<open>\<^verbatim>\<open>return str(result.inserted_id)\<close>.\<close>

definition returning_id :: "(error + val) \<times> db \<Rightarrow> (error + string) \<times> db" where
  "returning_id r = (case r of (Inl e, s) \<Rightarrow> (Inl e, s) | (Inr i, s) \<Rightarrow> (Inr (py_str i), s))"

definition budget_required_fields :: "string list" where
  "budget_required_fields =
     [''user_id'', ''income'', ''fixed_expenses'', ''variable_expenses'', ''created_at'']"

definition create_budget :: "db \<Rightarrow> doc \<Rightarrow> (error + string) \<times> db" where
  "create_budget s budget_data =
     (if \<not> list_all (has_key budget_data) budget_required_fields
      then (Inl (ValueError ''general_missing_budget_fields''), s)
      else returning_id (insert_one ''budgets'' budget_data s))"

definition bill_required_fields :: "string list" where
  "bill_required_fields = [''user_id'', ''bill_name'', ''amount'', ''due_date'', ''status'']"

definition create_bill :: "db \<Rightarrow> doc \<Rightarrow> (error + string) \<times> db" where
  "create_bill s bill_data =
     (if \<not> list_all (has_key bill_data) bill_required_fields
      then (Inl (ValueError ''general_missing_bill_fields''), s)
      else returning_id (insert_one ''bills'' bill_data s))"

definition bill_reminder_required_fields :: "string list" where
  "bill_reminder_required_fields =
     [''user_id'', ''notification_id'', ''type'', ''message'', ''sent_at'']"

definition create_bill_reminder :: "db \<Rightarrow> doc \<Rightarrow> (error + string) \<times> db" where
  "create_bill_reminder s reminder_data =
     (if \<not> list_all (has_key reminder_data) bill_reminder_required_fields
      then (Inl (ValueError ''general_missing_bill_reminder_fields''), s)
      else returning_id (insert_one ''bill_reminders'' reminder_data s))"

definition shopping_item_required_fields :: "string list" where
  "shopping_item_required_fields =
     [''user_id'', ''list_id'', ''name'', ''quantity'', ''price'', ''category'', ''status'',
      ''created_at'', ''updated_at'']"

definition create_shopping_item :: "db \<Rightarrow> doc \<Rightarrow> (error + string) \<times> db" where
  "create_shopping_item s item_data =
     (if \<not> list_all (has_key item_data) shopping_item_required_fields
      then (Inl (ValueError ''general_missing_shopping_item_fields''), s)
      else returning_id
             (insert_one ''shopping_items''
                (dict_set ''unit'' (get_or item_data ''unit'' (VStr ''piece'')) item_data) s))"

text \<open>\<^verbatim>\<open>create_shopping_items_bulk\<close> reads \<^verbatim>\<open>items_data[0]\<close> for its log line after the
  insert; the list is not empty there, since \<^verbatim>\<open>insert_many\<close> refuses an empty one.\<close>

definition create_shopping_items_bulk :: "db \<Rightarrow> doc list \<Rightarrow> (error + string list) \<times> db" where
  "create_shopping_items_bulk s items_data =
     (if \<not> list_all (\<lambda>item. list_all (has_key item) shopping_item_required_fields) items_data
      then (Inl (ValueError ''Missing required fields in item''), s)
      else (case insert_many ''shopping_items'' items_data s of
              (Inl e, s') \<Rightarrow> (Inl e, s')
            | (Inr ids, s') \<Rightarrow> (Inr (map py_str ids), s')))"

definition shopping_list_required_fields :: "string list" where
  "shopping_list_required_fields =
     [''name'', ''session_id'', ''budget'', ''created_at'', ''updated_at'', ''total_spent'',
      ''status'']"

text \<open>\<open>uuid4\<close> is the text of the UUID drawn by this call.\<close>

definition create_shopping_list :: "string \<Rightarrow> db \<Rightarrow> doc \<Rightarrow> (error + string) \<times> db" where
  "create_shopping_list uuid4 s list_data =
     (if \<not> list_all (has_key list_data) shopping_list_required_fields
      then (Inl (ValueError ''general_missing_shopping_list_fields''), s)
      else
        let list_data1 = dict_set ''_id'' (VStr uuid4) list_data;
            list_data2 = dict_set ''items'' (get_or list_data1 ''items'' (VList [])) list_data1
        in (case insert_one ''shopping_lists'' list_data2 s of
              (Inl e, s') \<Rightarrow> (Inl e, s')
            | (Inr inserted_id, s') \<Rightarrow>
                (case get_shopping_lists_cache_clear of
                   Inl e \<Rightarrow> (Inl e, s')
                 | Inr _ \<Rightarrow> (Inr (py_str inserted_id), s'))))"

definition create_user :: "(val \<Rightarrow> error + val) \<Rightarrow> val \<Rightarrow> db \<Rightarrow> doc \<Rightarrow> (error + string) \<times> db" where
  "create_user generate_password_hash now s user_data =
     (case (case map_of user_data ''password'' of
              None \<Rightarrow> Inr user_data
            | Some pw \<Rightarrow>
                (case generate_password_hash pw of
                   Inl e \<Rightarrow> Inl e
                 | Inr h \<Rightarrow> Inr (dict_set ''password_hash'' h (dict_del ''password'' user_data))))
      of Inl e \<Rightarrow> (Inl e, s)
       | Inr user_data1 \<Rightarrow>
           returning_id
             (insert_one ''users''
                (setdefault ''setup_complete'' (VBool False)
                  (setdefault ''is_admin'' (VBool False)
                    (setdefault ''role'' (VStr ''personal'')
                      (setdefault ''ficore_credit_balance'' (VInt 10)
                        (setdefault ''created_at'' now user_data1))))) s))"

definition create_credit_request :: "db \<Rightarrow> doc \<Rightarrow> (error + string) \<times> db" where
  "create_credit_request s request_data = returning_id (insert_one ''credit_requests'' request_data s)"

definition create_feedback :: "db \<Rightarrow> doc \<Rightarrow> (error + string) \<times> db" where
  "create_feedback s feedback_data = returning_id (insert_one ''feedback'' feedback_data s)"

text \<open>\<^verbatim>\<open>log_tool_usage\<close> logs an error and returns \<^verbatim>\<open>None\<close> either way.\<close>

definition log_tool_usage :: "val \<Rightarrow> val \<Rightarrow> db \<Rightarrow> val \<Rightarrow> val \<Rightarrow> val \<Rightarrow> (error + unit) \<times> db" where
  "log_tool_usage now tool_name s user_id session_id action =
     (case insert_one ''tool_usage''
             [(''tool_name'', tool_name), (''user_id'', user_id), (''session_id'', session_id),
              (''action'', action), (''timestamp'', now)] s of
        (r, s') \<Rightarrow> (Inr (), s'))"

subsection \<open>Updates\<close>

text \<open>\<^verbatim>\<open>return True\<close> when \<^verbatim>\<open>result.modified_count > 0\<close>, \<^verbatim>\<open>False\<close> otherwise.\<close>

definition was_modified :: "(error + nat \<times> nat) \<times> db \<Rightarrow> (error + bool) \<times> db" where
  "was_modified r =
     (case r of (Inl e, s) \<Rightarrow> (Inl e, s) | (Inr (matched, modified), s) \<Rightarrow> (Inr (0 < modified), s))"

definition update_shopping_item :: "val \<Rightarrow> db \<Rightarrow> val \<Rightarrow> doc \<Rightarrow> (error + bool) \<times> db" where
  "update_shopping_item now s item_id update_data =
     (let update_data1 = dict_set ''updated_at'' now update_data in
      case ObjectId s item_id of
        Inl e \<Rightarrow> (Inl e, s)
      | Inr oid \<Rightarrow>
          was_modified (update_one ''shopping_items'' [(''_id'', oid)] (Op_set update_data1) s))"

definition update_shopping_list :: "val \<Rightarrow> db \<Rightarrow> val \<Rightarrow> doc \<Rightarrow> (error + bool) \<times> db" where
  "update_shopping_list now s list_id update_data =
     (let update_data1 = dict_set ''updated_at'' now update_data in
      case update_one ''shopping_lists'' [(''_id'', list_id)] (Op_set update_data1) s of
        (Inl e, s') \<Rightarrow> (Inl e, s')
      | (Inr (matched, modified), s') \<Rightarrow>
          if 0 < modified then
            (case get_shopping_lists_cache_clear of
               Inl e \<Rightarrow> (Inl e, s')
             | Inr _ \<Rightarrow> (Inr True, s'))
          else (Inr False, s'))"

definition update_user_balance :: "db \<Rightarrow> val \<Rightarrow> val \<Rightarrow> (error + bool) \<times> db" where
  "update_user_balance s user_id amount =
     was_modified
       (update_one ''users'' [(''user_id'', user_id)] (Op_inc ''ficore_credit_balance'' amount) s)"

definition update_budget :: "db \<Rightarrow> val \<Rightarrow> doc \<Rightarrow> (error + bool) \<times> db" where
  "update_budget s budget_id update_data =
     (case ObjectId s budget_id of
        Inl e \<Rightarrow> (Inl e, s)
      | Inr oid \<Rightarrow> was_modified (update_one ''budgets'' [(''_id'', oid)] (Op_set update_data) s))"

definition update_bill :: "db \<Rightarrow> val \<Rightarrow> doc \<Rightarrow> (error + bool) \<times> db" where
  "update_bill s bill_id update_data =
     (case ObjectId s bill_id of
        Inl e \<Rightarrow> (Inl e, s)
      | Inr oid \<Rightarrow> was_modified (update_one ''bills'' [(''_id'', oid)] (Op_set update_data) s))"

definition update_bill_reminder :: "db \<Rightarrow> val \<Rightarrow> doc \<Rightarrow> (error + bool) \<times> db" where
  "update_bill_reminder s reminder_id update_data =
     (case ObjectId s reminder_id of
        Inl e \<Rightarrow> (Inl e, s)
      | Inr oid \<Rightarrow>
          was_modified (update_one ''bill_reminders'' [(''_id'', oid)] (Op_set update_data) s))"

text \<open>\<^verbatim>\<open>update_credit_request\<close> returns \<^verbatim>\<open>False\<close> on any error.\<close>

definition update_credit_request :: "val \<Rightarrow> db \<Rightarrow> val \<Rightarrow> doc \<Rightarrow> (error + bool) \<times> db" where
  "update_credit_request now s request_id update_data =
     (let update_data1 = dict_set ''updated_at'' now update_data in
      case ObjectId s request_id of
        Inl e \<Rightarrow> (Inr False, s)
      | Inr oid \<Rightarrow>
          (case update_one ''credit_requests'' [(''_id'', oid)] (Op_set update_data1) s of
             (Inl e, s') \<Rightarrow> (Inr False, s')
           | (Inr (matched, modified), s') \<Rightarrow> (Inr (0 < modified), s')))"

subsection \<open>Deleting a shopping list\<close>

text \<open>\<^verbatim>\<open>user_id\<close> and \<^verbatim>\<open>email\<close> default to \<^verbatim>\<open>None\<close> (\<open>VNull\<close>). The early \<^verbatim>\<open>return False\<close>
  leaves the transaction block normally; the exception of \<^verbatim>\<open>cache_clear\<close> leaves it as
  an exception.\<close>

definition delete_shopping_list :: "db \<Rightarrow> val \<Rightarrow> val \<Rightarrow> val \<Rightarrow> (error + bool) \<times> db" where
  "delete_shopping_list s list_id user_id email =
     (case (if truthy user_id \<and> truthy email
            then (case py_lower email of
                    Inl e \<Rightarrow> Inl e
                  | Inr lowered \<Rightarrow>
                      Inr [(''_id'', list_id), (''user_id'', user_id), (''email'', lowered)])
            else Inr [(''_id'', list_id)])
      of Inl e \<Rightarrow> (Inl e, s)
       | Inr filter_criteria \<Rightarrow>
           in_transaction (\<lambda>s.
             case delete_one ''shopping_lists'' filter_criteria s of
               (Inl e, s1) \<Rightarrow> (Inl e, s1)
             | (Inr deleted_count, s1) \<Rightarrow>
                 if deleted_count = 0 then (Inr False, s1)
                 else (case delete_many ''shopping_items'' [(''list_id'', list_id)] s1 of
                         (Inl e, s2) \<Rightarrow> (Inl e, s2)
                       | (Inr items_deleted, s2) \<Rightarrow>
                           (case get_shopping_lists_cache_clear of
                              Inl e \<Rightarrow> (Inl e, s2)
                            | Inr _ \<Rightarrow> (Inr True, s2)))) s)"

subsection \<open>Users\<close>







subsection \<open>Projections\<close>

text \<open>A projection takes \<^verbatim>\<open>None\<close> or a document; \<^verbatim>\<open>if not record\<close> holds for \<^verbatim>\<open>None\<close> and
  for the empty document.\<close>

definition project :: "doc \<Rightarrow> (doc \<Rightarrow> doc) \<Rightarrow> doc option \<Rightarrow> doc" where
  "project dflt proj record =
     (case record of None \<Rightarrow> dflt | Some r \<Rightarrow> if r = [] then dflt else proj r)"

definition id_text :: "doc \<Rightarrow> val" where
  "id_text d = VStr (py_str (get_or d ''_id'' (VStr [])))"

definition to_dict_shopping_item :: "doc option \<Rightarrow> doc" where
  "to_dict_shopping_item record =
     project [(''name'', VNull), (''quantity'', VNull)] (\<lambda>r.
        [(''id'', id_text r),
         (''user_id'', get_or r ''user_id'' (VStr [])),
         (''list_id'', get_or r ''list_id'' (VStr [])),
         (''name'', get_or r ''name'' (VStr [])),
         (''quantity'', get_or r ''quantity'' (VInt 0)),
         (''price'', get_or r ''price'' (VDouble (Finite 0))),
         (''category'', get_or r ''category'' (VStr [])),
         (''status'', get_or r ''status'' (VStr [])),
         (''created_at'', get_or r ''created_at'' VNull),
         (''updated_at'', get_or r ''updated_at'' VNull),
         (''store'', get_or r ''store'' (VStr [])),
         (''frequency'', get_or r ''frequency'' (VInt 1))]) record"

definition to_dict_budget :: "doc option \<Rightarrow> doc" where
  "to_dict_budget record =
     project [(''surplus_deficit'', VNull), (''savings_goal'', VNull)] (\<lambda>r.
        [(''id'', id_text r),
         (''income'', get_or r ''income'' (VInt 0)),
         (''fixed_expenses'', get_or r ''fixed_expenses'' (VInt 0)),
         (''variable_expenses'', get_or r ''variable_expenses'' (VInt 0)),
         (''savings_goal'', get_or r ''savings_goal'' (VInt 0)),
         (''surplus_deficit'', get_or r ''surplus_deficit'' (VInt 0)),
         (''housing'', get_or r ''housing'' (VInt 0)),
         (''food'', get_or r ''food'' (VInt 0)),
         (''transport'', get_or r ''transport'' (VInt 0)),
         (''dependents'', get_or r ''dependents'' (VInt 0)),
         (''miscellaneous'', get_or r ''miscellaneous'' (VInt 0)),
         (''others'', get_or r ''others'' (VInt 0)),
         (''created_at'', get_or r ''created_at'' VNull)]) record"

definition to_dict_bill :: "doc option \<Rightarrow> doc" where
  "to_dict_bill record =
     project [(''bill_name'', VNull), (''amount'', VNull)] (\<lambda>r.
        [(''id'', id_text r),
         (''user_id'', get_or r ''user_id'' (VStr [])),
         (''bill_name'', get_or r ''bill_name'' (VStr [])),
         (''amount'', get_or r ''amount'' (VInt 0)),
         (''due_date'', get_or r ''due_date'' VNull),
         (''frequency'', get_or r ''frequency'' (VStr [])),
         (''category'', get_or r ''category'' (VStr [])),
         (''status'', get_or r ''status'' (VStr [])),
         (''send_notifications'', get_or r ''send_notifications'' (VBool False)),
         (''send_email'', get_or r ''send_email'' (VBool False)),
         (''send_sms'', get_or r ''send_sms'' (VBool False)),
         (''send_whatsapp'', get_or r ''send_whatsapp'' (VBool False)),
         (''reminder_days'', get_or r ''reminder_days'' VNull),
         (''user_email'', get_or r ''user_email'' (VStr [])),
         (''user_phone'', get_or r ''user_phone'' (VStr [])),
         (''first_name'', get_or r ''first_name'' (VStr []))]) record"

definition to_dict_bill_reminder :: "doc option \<Rightarrow> doc" where
  "to_dict_bill_reminder record =
     project [(''notification_id'', VNull), (''type'', VNull)] (\<lambda>r.
        [(''id'', id_text r),
         (''user_id'', get_or r ''user_id'' (VStr [])),
         (''notification_id'', get_or r ''notification_id'' (VStr [])),
         (''type'', get_or r ''type'' (VStr [])),
         (''message'', get_or r ''message'' (VStr [])),
         (''sent_at'', get_or r ''sent_at'' VNull),
         (''read_status'', get_or r ''read_status'' (VBool False))]) record"

definition to_dict_shopping_list :: "doc option \<Rightarrow> doc" where
  "to_dict_shopping_list record =
     project [(''name'', VNull), (''budget'', VNull)] (\<lambda>r.
        [(''id'', id_text r),
         (''name'', get_or r ''name'' (VStr [])),
         (''user_id'', get_or r ''user_id'' (VStr [])),
         (''session_id'', get_or r ''session_id'' (VStr [])),
         (''budget'', get_or r ''budget'' (VDouble (Finite 0))),
         (''created_at'', get_or r ''created_at'' VNull),
         (''updated_at'', get_or r ''updated_at'' VNull),
         (''collaborators'', get_or r ''collaborators'' (VList [])),
         (''total_spent'', get_or r ''total_spent'' (VDouble (Finite 0))),
         (''status'', get_or r ''status'' (VStr []))]) record"

section \<open>The Reconciler\<close>

subsection \<open>Server calls on collections and indexes\<close>

definition ping :: "db \<Rightarrow> (error + unit) \<times> db" where
  "ping s0 = server_call s0 (\<lambda>s. (Inr (), s))"

definition list_collection_names :: "db \<Rightarrow> (error + string list) \<times> db" where
  "list_collection_names s0 = server_call s0 (\<lambda>s. (Inr (map fst (colls s)), s))"

text \<open>\<^verbatim>\<open>db.command('collMod', name, validator=v)\<close> replaces the validator of a collection
  that exists; \<^verbatim>\<open>db.create_collection(name, validator=v)\<close> creates one that does not.\<close>

definition collMod :: "string \<Rightarrow> schema option \<Rightarrow> db \<Rightarrow> (error + unit) \<times> db" where
  "collMod cname vd s0 = server_call s0 (\<lambda>s.
     case map_of (colls s) cname of
       None \<Rightarrow> (Inl (OperationFailure ''NamespaceNotFound''), s)
     | Some c \<Rightarrow> (Inr (), put_coll cname (c\<lparr>validator := vd\<rparr>) s))"

definition create_collection :: "string \<Rightarrow> schema option \<Rightarrow> db \<Rightarrow> (error + unit) \<times> db" where
  "create_collection cname vd s0 = server_call s0 (\<lambda>s.
     case map_of (colls s) cname of
       Some c \<Rightarrow> (Inl CollectionInvalid, s)
     | None \<Rightarrow> (Inr (), put_coll cname (new_coll vd) s))"

definition index_information :: "string \<Rightarrow> db \<Rightarrow> (error + (string \<times> index_info) list) \<times> db" where
  "index_information cname s0 = server_call s0 (\<lambda>s.
     (Inr (case map_of (colls s) cname of None \<Rightarrow> [] | Some c \<Rightarrow> indexes c), s))"

definition log_call :: "index_call \<Rightarrow> db \<Rightarrow> db" where
  "log_call c s = s\<lparr>index_calls := index_calls s @ [c]\<rparr>"

text \<open>\<^verbatim>\<open>drop_index(name)\<close>. The server refuses to drop \<^verbatim>\<open>_id_\<close> and an index it does not
  have.\<close>

definition drop_index :: "string \<Rightarrow> string \<Rightarrow> db \<Rightarrow> (error + unit) \<times> db" where
  "drop_index cname iname s0 = server_call (log_call (DropIndex cname iname) s0) (\<lambda>s.
     case map_of (colls s) cname of
       None \<Rightarrow> (Inl (OperationFailure ''NamespaceNotFound''), s)
     | Some c \<Rightarrow>
         if iname = ''_id_'' then (Inl (OperationFailure ''InvalidOptions''), s)
         else if map_of (indexes c) iname = None then (Inl (OperationFailure ''IndexNotFound''), s)
         else (Inr (), put_coll cname (c\<lparr>indexes := filter (\<lambda>ni. fst ni \<noteq> iname) (indexes c)\<rparr>) s))"

text \<open>\<^verbatim>\<open>create_index(keys, name=name, **options)\<close>. An option called \<^verbatim>\<open>name\<close> makes the
  Python call itself fail (two values for one keyword). On the server: an index of that
  name with another key is \<^verbatim>\<open>IndexKeySpecsConflict\<close>; an index of that name and key
  with other options, or an index of that key under another name, is
  \<^verbatim>\<open>IndexOptionsConflict\<close>; an identical index is left as it is; otherwise the index is
  added, described by version 2 and the options it was given.\<close>

definition same_key :: "(string \<times> val) list \<Rightarrow> (string \<times> val) list \<Rightarrow> bool" where
  "same_key a b = list_all2 (\<lambda>x y. fst x = fst y \<and> mongo_eq (snd x) (snd y)) a b"

definition create_index ::
    "string \<Rightarrow> (string \<times> val) list \<Rightarrow> string \<Rightarrow> doc \<Rightarrow> db \<Rightarrow> (error + string) \<times> db" where
  "create_index cname keys iname opts s0 =
     (if has_key opts ''name'' then (Inl TypeError, s0)
      else server_call (log_call (CreateIndex cname iname keys opts) s0) (\<lambda>s.
        let c = get_coll s cname in
        case map_of (indexes c) iname of
          Some ix \<Rightarrow>
            if \<not> same_key (ikey ix) keys then (Inl (OperationFailure ''IndexKeySpecsConflict''), s)
            else if \<not> dict_eq (dict_del ''v'' (info ix)) opts
                 then (Inl (OperationFailure ''IndexOptionsConflict''), s)
            else (Inr iname, s)
        | None \<Rightarrow>
            if list_ex (\<lambda>ni. same_key (ikey (snd ni)) keys) (indexes c)
            then (Inl (OperationFailure ''IndexOptionsConflict''), s)
            else (Inr iname,
                  put_coll cname
                    (c\<lparr>indexes := indexes c @ [(iname, \<lparr>ikey = keys, info = (''v'', VInt 2) # opts\<rparr>)]\<rparr>) s)))"

subsection \<open>The Schema Registry\<close>

text \<open>A declared index is a dict with a \<^verbatim>\<open>key\<close> entry, a list of (field, direction)
  pairs, and options; a direction is an integer (\<^verbatim>\<open>ASCENDING\<close> is 1, \<^verbatim>\<open>DESCENDING\<close> is
  -1) or the name of an index kind. \<open>options\<close> holds the entries other than \<^verbatim>\<open>key\<close>.
  A collection's configuration gives its validator (\<open>None\<close>: the empty validator
  \<^verbatim>\<open>{}\<close> that \<^verbatim>\<open>config.get('validator', {})\<close> defaults to) and its indexes.\<close>

datatype key_direction = Int_direction int | Str_direction string

record index_spec =
  key :: "(string \<times> key_direction) list"
  options :: doc

record config =
  cfg_validator :: "schema option"
  cfg_indexes :: "index_spec list"

type_synonym registry = "(string \<times> config) list"

fun direction_val :: "key_direction \<Rightarrow> val" where
  "direction_val (Int_direction i) = VInt i"
| "direction_val (Str_direction t) = VStr t"

text \<open>The generated name: \<^verbatim>\<open>'_'.join(f"{k}_{v if isinstance(v, int) else
  str(v).replace(' ', '_')}" for k, v in keys)\<close>.\<close>

fun direction_text :: "key_direction \<Rightarrow> string" where
  "direction_text (Int_direction i) = show_int i"
| "direction_text (Str_direction t) = map (\<lambda>c. if c = CHR '' '' then CHR ''_'' else c) t"

fun join :: "string \<Rightarrow> string list \<Rightarrow> string" where
  "join sep [] = []"
| "join sep [x] = x"
| "join sep (x # y # ys) = x @ sep @ join sep (y # ys)"

definition index_name :: "(string \<times> key_direction) list \<Rightarrow> string" where
  "index_name keys = join ''_'' (map (\<lambda>kv. fst kv @ ''_'' @ direction_text (snd kv)) keys)"

subsection \<open>\<^verbatim>\<open>initialize_app_data\<close>\<close>

text \<open>\<^verbatim>\<open>tuple(existing_index_info['key']) == index_key_tuple\<close>.\<close>

definition key_tuple_eq :: "(string \<times> val) list \<Rightarrow> (string \<times> key_direction) list \<Rightarrow> bool" where
  "key_tuple_eq existing keys =
     list_all2 (\<lambda>x y. fst x = fst y \<and> py_eq (snd x) (direction_val (snd y))) existing keys"

text \<open>\<^verbatim>\<open>{k: v for k, v in existing_index_info.items() if k not in ['key', 'v', 'ns']}\<close>.\<close>

definition existing_options :: "index_info \<Rightarrow> doc" where
  "existing_options ix = filter (\<lambda>kv. fst kv \<notin> {''key'', ''v'', ''ns''}) (info ix)"

text \<open>The inner loop over \<^verbatim>\<open>existing_indexes.items()\<close>, returning \<^verbatim>\<open>index_exists\<close>: the
  first live index with the declared key decides, except that a mismatching \<^verbatim>\<open>_id_\<close>
  is skipped (\<^verbatim>\<open>continue\<close>) and the search goes on.\<close>

fun scan_existing :: "string \<Rightarrow> index_spec \<Rightarrow> (string \<times> index_info) list \<Rightarrow> db
    \<Rightarrow> (error + bool) \<times> db" where
  "scan_existing cname index [] s = (Inr False, s)"
| "scan_existing cname index ((existing_index_name, existing_index_info) # rest) s =
     (if key_tuple_eq (ikey existing_index_info) (key index) then
        (if dict_eq (existing_options existing_index_info) (options index) then (Inr True, s)
         else if existing_index_name = ''_id_'' then scan_existing cname index rest s
         else (case drop_index cname existing_index_name s of
                 (Inl e, s') \<Rightarrow> (Inl e, s')
               | (Inr _, s') \<Rightarrow> (Inr False, s')))
      else scan_existing cname index rest s)"

text \<open>\<^verbatim>\<open>'IndexKeySpecsConflict' in str(e)\<close>: the text of a server error carries the
  error's code name.\<close>

fun is_key_specs_conflict :: "error \<Rightarrow> bool" where
  "is_key_specs_conflict (OperationFailure code_name) = (code_name = ''IndexKeySpecsConflict'')"
| "is_key_specs_conflict _ = False"

definition ensure_index :: "string \<Rightarrow> (string \<times> index_info) list \<Rightarrow> index_spec \<Rightarrow> db
    \<Rightarrow> (error + unit) \<times> db" where
  "ensure_index cname existing_indexes index s =
     (let keys = map (\<lambda>kv. (fst kv, direction_val (snd kv))) (key index);
          iname = index_name (key index)
      in case scan_existing cname index existing_indexes s of
           (Inl e, s1) \<Rightarrow> (Inl e, s1)
         | (Inr index_exists, s1) \<Rightarrow>
             if index_exists then (Inr (), s1)
             else (case create_index cname keys iname (options index) s1 of
                     (Inr _, s2) \<Rightarrow> (Inr (), s2)
                   | (Inl e, s2) \<Rightarrow>
                       if is_key_specs_conflict e then
                         (if iname \<noteq> ''_id_'' then
                            (case drop_index cname iname s2 of
                               (Inl e', s3) \<Rightarrow> (Inl e', s3)
                             | (Inr _, s3) \<Rightarrow>
                                 (case create_index cname keys iname (options index) s3 of
                                    (Inl e', s4) \<Rightarrow> (Inl e', s4)
                                  | (Inr _, s4) \<Rightarrow> (Inr (), s4)))
                          else (Inr (), s2))
                       else (Inl e, s2)))"

fun ensure_indexes :: "string \<Rightarrow> (string \<times> index_info) list \<Rightarrow> index_spec list \<Rightarrow> db
    \<Rightarrow> (error + unit) \<times> db" where
  "ensure_indexes cname existing_indexes [] s = (Inr (), s)"
| "ensure_indexes cname existing_indexes (index # rest) s =
     (case ensure_index cname existing_indexes index s of
        (Inl e, s') \<Rightarrow> (Inl e, s')
      | (Inr _, s') \<Rightarrow> ensure_indexes cname existing_indexes rest s')"

text \<open>One round of the loop over the registry: the validator, then the indexes against
  the index list read once before the inner loop.\<close>

definition reconcile_collection :: "string list \<Rightarrow> string \<Rightarrow> config \<Rightarrow> db \<Rightarrow> (error + unit) \<times> db" where
  "reconcile_collection collections collection_name cfg s =
     (case (if collection_name \<in> set collections
            then collMod collection_name (cfg_validator cfg) s
            else create_collection collection_name (cfg_validator cfg) s) of
        (Inl e, s1) \<Rightarrow> (Inl e, s1)
      | (Inr _, s1) \<Rightarrow>
          (case index_information collection_name s1 of
             (Inl e, s2) \<Rightarrow> (Inl e, s2)
           | (Inr existing_indexes, s2) \<Rightarrow>
               ensure_indexes collection_name existing_indexes (cfg_indexes cfg) s2))"

fun reconcile_all :: "string list \<Rightarrow> registry \<Rightarrow> db \<Rightarrow> (error + unit) \<times> db" where
  "reconcile_all collections [] s = (Inr (), s)"
| "reconcile_all collections ((collection_name, cfg) # rest) s =
     (case reconcile_collection collections collection_name cfg s of
        (Inl e, s') \<Rightarrow> (Inl e, s')
      | (Inr _, s') \<Rightarrow> reconcile_all collections rest s')"

text \<open>The Reconciler for a given registry: ping, read the collection names once, then
  the loop. Every error is logged and raised again.\<close>

definition reconcile :: "registry \<Rightarrow> db \<Rightarrow> (error + unit) \<times> db" where
  "reconcile collection_schemas s =
     (case ping s of
        (Inl e, s1) \<Rightarrow> (Inl e, s1)
      | (Inr _, s1) \<Rightarrow>
          (case list_collection_names s1 of
             (Inl e, s2) \<Rightarrow> (Inl e, s2)
           | (Inr collections, s2) \<Rightarrow> reconcile_all collections collection_schemas s2))"

subsection \<open>The registry of \<^verbatim>\<open>models.py\<close>\<close>

definition typed :: "string list \<Rightarrow> schema" where
  "typed tys = Schema tys [] [] None None None"

definition typed_min :: "string list \<Rightarrow> rat \<Rightarrow> schema" where
  "typed_min tys m = Schema tys [] [] (Some m) None None"

definition one_of :: "string list \<Rightarrow> schema" where
  "one_of names = Schema [] [] [] None (Some (map VStr names)) None"

definition string_one_of :: "string list \<Rightarrow> schema" where
  "string_one_of names = Schema [''string''] [] [] None (Some (map VStr names)) None"

definition object_of :: "string list \<Rightarrow> (string \<times> schema) list \<Rightarrow> schema" where
  "object_of req props = Schema [''object''] req props None None None"

definition array_of :: "schema \<Rightarrow> schema" where
  "array_of s = Schema [''array''] [] [] None None (Some s)"

definition asc :: "string \<Rightarrow> string \<times> key_direction" where
  "asc field = (field, Int_direction 1)"

definition desc :: "string \<Rightarrow> string \<times> key_direction" where
  "desc field = (field, Int_direction (- 1))"

definition categories :: "string list" where
  "categories = [''fruits'', ''vegetables'', ''dairy'', ''meat'', ''grains'', ''beverages'',
                 ''household'', ''other'']"

definition units :: "string list" where
  "units = [''piece'', ''kg'', ''liter'', ''pack'', ''unit'', ''other'']"

definition users_schema :: schema where
  "users_schema =
     object_of [''user_id'', ''ficore_credit_balance'']
       [(''user_id'', typed [''string'']),
        (''ficore_credit_balance'', typed_min [''double''] 0)]"

definition shopping_items_schema :: schema where
  "shopping_items_schema =
     object_of [''user_id'', ''session_id'', ''list_id'', ''name'', ''quantity'', ''price'',
                ''category'', ''status'', ''created_at'', ''updated_at'', ''unit'']
       [(''user_id'', typed [''string'', ''null'']),
        (''session_id'', typed [''string'']),
        (''list_id'', typed [''string'']),
        (''name'', typed [''string'']),
        (''quantity'', typed_min [''int''] 1),
        (''price'', typed_min [''double''] 0),
        (''category'', one_of categories),
        (''status'', one_of [''to_buy'', ''bought'']),
        (''created_at'', typed [''date'']),
        (''updated_at'', typed [''date'']),
        (''store'', typed [''string'', ''null'']),
        (''frequency'', typed_min [''int''] 1),
        (''unit'', string_one_of units)]"

definition embedded_item_schema :: schema where
  "embedded_item_schema =
     object_of [''name'', ''quantity'', ''price'', ''category'', ''status'', ''created_at'',
                ''updated_at'']
       [(''name'', typed [''string'']),
        (''quantity'', typed_min [''int''] 1),
        (''price'', typed_min [''double''] 0),
        (''category'', one_of categories),
        (''status'', one_of [''to_buy'', ''bought'']),
        (''created_at'', typed [''date'']),
        (''updated_at'', typed [''date'']),
        (''store'', typed [''string'', ''null'']),
        (''frequency'', typed_min [''int''] 1),
        (''unit'', string_one_of units)]"

definition shopping_lists_schema :: schema where
  "shopping_lists_schema =
     object_of [''name'', ''session_id'', ''budget'', ''created_at'', ''updated_at'',
                ''total_spent'', ''status'', ''items'']
       [(''name'', typed [''string'']),
        (''user_id'', typed [''string'', ''null'']),
        (''session_id'', typed [''string'']),
        (''budget'', typed_min [''double''] 0),
        (''created_at'', typed [''date'']),
        (''updated_at'', typed [''date'']),
        (''collaborators'', array_of (typed [''string''])),
        (''total_spent'', typed_min [''double''] 0),
        (''status'', one_of [''active'', ''saved'']),
        (''items'', array_of embedded_item_schema)]"

definition budgets_schema :: schema where
  "budgets_schema =
     object_of [''user_id'', ''income'', ''fixed_expenses'', ''variable_expenses'', ''created_at'']
       [(''user_id'', typed [''string'']),
        (''session_id'', typed [''string'', ''null'']),
        (''income'', typed_min [''number''] 0),
        (''fixed_expenses'', typed_min [''number''] 0),
        (''variable_expenses'', typed_min [''number''] 0),
        (''savings_goal'', typed_min [''number''] 0),
        (''surplus_deficit'', typed [''number'']),
        (''housing'', typed_min [''number''] 0),
        (''food'', typed_min [''number''] 0),
        (''transport'', typed_min [''number''] 0),
        (''dependents'', typed_min [''number''] 0),
        (''miscellaneous'', typed_min [''number''] 0),
        (''others'', typed_min [''number''] 0),
        (''created_at'', typed [''date''])]"

definition bills_schema :: schema where
  "bills_schema =
     object_of [''user_id'', ''bill_name'', ''amount'', ''due_date'', ''status'']
       [(''user_id'', typed [''string'']),
        (''session_id'', typed [''string'', ''null'']),
        (''bill_name'', typed [''string'']),
        (''amount'', typed_min [''number''] 0),
        (''due_date'', typed [''date'']),
        (''frequency'', typed [''string'', ''null'']),
        (''category'', typed [''string'', ''null'']),
        (''status'', one_of [''pending'', ''paid'', ''overdue'']),
        (''send_notifications'', typed [''bool'']),
        (''send_email'', typed [''bool'']),
        (''send_sms'', typed [''bool'']),
        (''send_whatsapp'', typed [''bool'']),
        (''reminder_days'', typed [''int'', ''null'']),
        (''user_email'', typed [''string'', ''null'']),
        (''user_phone'', typed [''string'', ''null'']),
        (''first_name'', typed [''string'', ''null''])]"

definition bill_reminders_schema :: schema where
  "bill_reminders_schema =
     object_of [''user_id'', ''notification_id'', ''type'', ''message'', ''sent_at'']
       [(''user_id'', typed [''string'']),
        (''session_id'', typed [''string'', ''null'']),
        (''notification_id'', typed [''string'']),
        (''type'', one_of [''email'', ''sms'', ''whatsapp'']),
        (''message'', typed [''string'']),
        (''sent_at'', typed [''date'']),
        (''read_status'', typed [''bool''])]"

definition collection_schemas :: registry where
  "collection_schemas =
     [(''users'',
         \<lparr>cfg_validator = Some users_schema,
          cfg_indexes = [\<lparr>key = [asc ''user_id''], options = [(''unique'', VBool True)]\<rparr>]\<rparr>),
      (''shopping_items'',
         \<lparr>cfg_validator = Some shopping_items_schema,
          cfg_indexes = [\<lparr>key = [asc ''user_id'', asc ''list_id''], options = []\<rparr>,
                         \<lparr>key = [desc ''created_at''], options = []\<rparr>]\<rparr>),
      (''shopping_lists'',
         \<lparr>cfg_validator = Some shopping_lists_schema,
          cfg_indexes = [\<lparr>key = [asc ''user_id'', asc ''status'', desc ''updated_at''], options = []\<rparr>,
                         \<lparr>key = [asc ''session_id'', asc ''status'', desc ''updated_at''], options = []\<rparr>]\<rparr>),
      (''budgets'',
         \<lparr>cfg_validator = Some budgets_schema,
          cfg_indexes = [\<lparr>key = [asc ''user_id'', desc ''created_at''], options = []\<rparr>,
                         \<lparr>key = [asc ''session_id'', desc ''created_at''], options = []\<rparr>]\<rparr>),
      (''bills'',
         \<lparr>cfg_validator = Some bills_schema,
          cfg_indexes = [\<lparr>key = [asc ''user_id'', asc ''due_date''], options = []\<rparr>,
                         \<lparr>key = [asc ''session_id'', asc ''due_date''], options = []\<rparr>,
                         \<lparr>key = [asc ''status''], options = []\<rparr>]\<rparr>),
      (''bill_reminders'',
         \<lparr>cfg_validator = Some bill_reminders_schema,
          cfg_indexes = [\<lparr>key = [asc ''user_id'', desc ''sent_at''], options = []\<rparr>,
                         \<lparr>key = [asc ''session_id'', desc ''sent_at''], options = []\<rparr>]\<rparr>)]"

text \<open>\<^verbatim>\<open>initialize_app_data(app)\<close>: the Reconciler on the registry above.\<close>

definition initialize_app_data :: "db \<Rightarrow> (error + unit) \<times> db" where
  "initialize_app_data s = reconcile collection_schemas s"

section \<open>Properties\<close>

subsection \<open>Lists, dictionaries and collections\<close>

lemma split_first_SomeD:
  "split_first P xs = Some (pre, x, post) \<Longrightarrow>
     xs = pre @ x # post \<and> P x \<and> list_all (\<lambda>y. \<not> P y) pre"
  by (induction xs arbitrary: pre) (auto split: if_splits option.splits)

lemma split_first_NoneD: "split_first P xs = None \<Longrightarrow> list_all (\<lambda>y. \<not> P y) xs"
  by (induction xs) (auto split: if_splits option.splits)

lemma split_first_append:
  "list_all (\<lambda>y. \<not> P y) pre \<Longrightarrow> P x \<Longrightarrow> split_first P (pre @ x # post) = Some (pre, x, post)"
  by (induction pre) auto

lemma map_of_dict_set: "map_of (dict_set k v d) k' = (if k' = k then Some v else map_of d k')"
  by (induction d) auto

lemma dict_set_same: "map_of d k = Some v \<Longrightarrow> dict_set k v d = d"
  by (induction d) (auto split: if_splits)

lemma dict_set_eq_iff: "dict_set k v d = d \<longleftrightarrow> map_of d k = Some v"
  using dict_set_same [of d k v] map_of_dict_set [of k v d k] by auto

lemma dict_set_dict_set: "dict_set k v (dict_set k w d) = dict_set k v d"
  by (induction d) auto

lemma get_coll_put_coll: "get_coll (put_coll n c s) n' = (if n' = n then c else get_coll s n')"
  by (simp add: get_coll_def put_coll_def map_of_dict_set)

lemma get_coll_faults: "get_coll (s\<lparr>faults := f\<rparr>) n = get_coll s n"
  by (simp add: get_coll_def)

lemma matches_dict_set:
  "k \<notin> fst ` set flt \<Longrightarrow> matches flt (dict_set k v d) = matches flt d"
  by (induction flt) (auto simp: matches_def map_of_dict_set)

text \<open>What a successful \<open>update_one\<close> does to the document it finds.\<close>

lemma update_one_found:
  assumes "split_first (matches flt) (docs (get_coll s cname)) = Some (pre, d, post)"
      and "apply_update u d = Inr d'"
      and "update_one cname flt u s = (Inr r, s')"
  shows "(d' = d \<and> r = (1, 0) \<and> docs (get_coll s' cname) = pre @ d # post) \<or>
         (d' \<noteq> d \<and> r = (1, 1) \<and> docs (get_coll s' cname) = pre @ d' # post \<and>
          map_of d' ''_id'' = map_of d ''_id'')"
  using assms split_first_SomeD [OF assms(1)]
  by (auto simp: update_one_def driver_call_def server_call_def Let_def get_coll_put_coll
                 get_coll_faults
           split: option.splits nat.splits if_splits)

subsection \<open>Sums of whole numbers in double arithmetic\<close>

lemma bit_length_pos: "0 < n \<Longrightarrow> 1 \<le> bit_length n"
proof -
  assume "0 < n"
  moreover have "0 \<le> bit_length m" for m
    by (induction m rule: bit_length.induct) (simp add: bit_length.simps)
  ultimately show ?thesis
    by (subst bit_length.simps) (simp add: add_increasing2)
qed

lemma bit_length_bounds:
  "0 < n \<Longrightarrow> 2 ^ nat (bit_length n - 1) \<le> n \<and> n < 2 ^ nat (bit_length n)"
proof (induction n rule: bit_length.induct)
  case (1 n)
  show ?case
  proof (cases "n div 2 = 0")
    case True
    with \<open>0 < n\<close> have n1: "n = 1" by presburger
    have "bit_length (0::int) = 0" by (simp add: bit_length.simps)
    then have "bit_length 1 = 1" by (subst bit_length.simps) simp
    with n1 show ?thesis by simp
  next
    case False
    with \<open>0 < n\<close> have m: "0 < n div 2" by presburger
    let ?m = "n div 2"
    have IH: "2 ^ nat (bit_length ?m - 1) \<le> ?m \<and> ?m < 2 ^ nat (bit_length ?m)"
      using 1 m by simp
    have bl: "bit_length n = 1 + bit_length ?m"
      using \<open>0 < n\<close> by (subst bit_length.simps) simp
    have p: "1 \<le> bit_length ?m" using m by (rule bit_length_pos)
    then have n1: "nat (bit_length ?m) = Suc (nat (bit_length ?m - 1))" by simp
    have lo: "(2::int) ^ nat (bit_length ?m) \<le> n"
    proof -
      have "(2::int) ^ nat (bit_length ?m) = 2 * 2 ^ nat (bit_length ?m - 1)"
        by (simp only: n1 power_Suc)
      also have "\<dots> \<le> 2 * ?m" using IH by simp
      also have "\<dots> \<le> n" by presburger
      finally show ?thesis .
    qed
    have hi: "n < 2 ^ nat (1 + bit_length ?m)"
    proof -
      have "n < 2 * (?m + 1)" by presburger
      also have "\<dots> \<le> 2 * 2 ^ nat (bit_length ?m)" using IH by simp
      also have "\<dots> = 2 ^ Suc (nat (bit_length ?m))" by simp
      also have "Suc (nat (bit_length ?m)) = nat (1 + bit_length ?m)" using p by simp
      finally show ?thesis .
    qed
    show ?thesis using lo hi by (simp add: bl)
  qed
qed

lemma round_half_even_of_int: "round_half_even (of_int k) = k"
  by (simp add: round_half_even_def)

lemma floor_log2_of_int: "1 \<le> m \<Longrightarrow> floor_log2 (of_int m) = bit_length m - 1"
  by (simp add: floor_log2_def)

text \<open>A whole number of size at most \<open>2 ^ 53\<close> is a double.\<close>

lemma round_double_of_int:
  assumes "\<bar>n\<bar> \<le> 2 ^ 53"
  shows "round_double (of_int n) = Finite (of_int n)"
proof (cases "n = 0")
  case True
  then show ?thesis by (simp add: round_double_def)
next
  case False
  define m where "m = \<bar>n\<bar>"
  define e where "e = bit_length m - 1"
  have m1: "1 \<le> m" using False by (simp add: m_def)
  have ab: "\<bar>of_int n :: rat\<bar> = of_int m" by (simp add: m_def)
  have fl: "floor_log2 \<bar>of_int n :: rat\<bar> = e"
    using m1 by (simp add: ab floor_log2_of_int e_def)
  have e0: "0 \<le> e" using bit_length_pos [of m] m1 by (simp add: e_def)
  have lo: "2 ^ nat e \<le> m" using bit_length_bounds [of m] m1 by (simp add: e_def)
  have e53: "e \<le> 53"
  proof (rule ccontr)
    assume "\<not> e \<le> 53"
    then have "54 \<le> nat e" by simp
    then have "(2::int) ^ 54 \<le> 2 ^ nat e" by (rule power_increasing) simp
    with lo assms show False by (simp add: m_def)
  qed
  define ulp where "ulp = pow2 (e - 52)"
  have ulp0: "ulp \<noteq> 0" by (simp add: ulp_def pow2_def)
  have "\<exists>k. (of_int n :: rat) / ulp = of_int k"
  proof (cases "e = 53")
    case True
    then have "2 ^ 53 \<le> m" using lo by simp
    with assms have "m = 2 ^ 53" by (simp add: m_def)
    then have "n = 2 * 2 ^ 52 \<or> n = 2 * (- (2 ^ 52))" by (auto simp: m_def abs_if split: if_splits)
    moreover have "ulp = 2" using True by (simp add: ulp_def pow2_def)
    ultimately show ?thesis
      by (metis nonzero_mult_div_cancel_left of_int_mult of_int_numeral zero_neq_numeral)
  next
    case False
    with e53 have "e \<le> 52" by simp
    then have "ulp = 1 / 2 ^ nat (52 - e)"
      by (cases "e = 52") (simp_all add: ulp_def pow2_def)
    then have "(of_int n :: rat) / ulp = of_int (n * 2 ^ nat (52 - e))" by simp
    then show ?thesis by blast
  qed
  then obtain k where k: "(of_int n :: rat) / ulp = of_int k" by blast
  then have y: "of_int (round_half_even (of_int n / ulp)) * ulp = (of_int n :: rat)"
    using ulp0 by (simp add: round_half_even_of_int nonzero_divide_eq_eq)
  have m: "max e (- 1022) = e" using e0 by simp
  show ?thesis
    using False e53 by (simp add: round_double_def fl m Let_def y flip: ulp_def)
qed

text \<open>A value that is a whole number, stored as an integer or as a double.\<close>

fun int_valued :: "val \<Rightarrow> int option" where
  "int_valued (VInt i) = Some i"
| "int_valued (VDouble (Finite r)) = (if r = of_int \<lfloor>r\<rfloor> then Some \<lfloor>r\<rfloor> else None)"
| "int_valued v = None"

fun is_integer :: "val \<Rightarrow> bool" where
  "is_integer (VInt i) = True"
| "is_integer v = False"

lemma int_valuedD:
  "int_valued v = Some n \<Longrightarrow> v = VInt n \<or> v = VDouble (Finite (of_int n))"
  by (cases v rule: int_valued.cases) (auto split: if_splits)

lemma int_valued_encodable: "int_valued v = Some n \<Longrightarrow> \<bar>n\<bar> \<le> 2 ^ 53 \<Longrightarrow> encodable v"
  by (auto dest!: int_valuedD)

text \<open>\<^verbatim>\<open>$inc\<close> on whole numbers of size at most \<open>2 ^ 53\<close> is exact; the sum is an integer
  when both are.\<close>

lemma num_add_int_valued:
  assumes "int_valued cur = Some b" and "int_valued a = Some x"
      and "\<bar>b\<bar> \<le> 2 ^ 53" and "\<bar>x\<bar> \<le> 2 ^ 53" and "\<bar>b + x\<bar> \<le> 2 ^ 53"
  shows "\<exists>v. num_add cur a = Some v \<and> int_valued v = Some (b + x) \<and>
             is_integer v = (is_integer cur \<and> is_integer a)"
proof -
  have s: "round_double (of_int b + of_int x) = Finite (of_int (b + x))"
    using round_double_of_int [OF assms(5)] by simp
  have rb: "round_double (of_int b) = Finite (of_int b)"
    using assms(3) by (rule round_double_of_int)
  have rx: "round_double (of_int x) = Finite (of_int x)"
    using assms(4) by (rule round_double_of_int)
  from int_valuedD [OF assms(1)] int_valuedD [OF assms(2)] show ?thesis
    using s rb rx assms(5) by auto
qed

lemma int_valued_inject:
  "int_valued v = Some n \<Longrightarrow> int_valued w = Some n \<Longrightarrow> is_integer v = is_integer w \<Longrightarrow> v = w"
  by (auto dest!: int_valuedD)

lemma num_add_numeric: "num_add cur a = Some v \<Longrightarrow> num_of a \<noteq> None"
  by (cases "(cur, a)" rule: num_add.cases) auto

subsection \<open>The balance increment\<close>

text \<open>The balance \<open>update_user_balance\<close> acts on: the field of the first user document
  with the given \<^verbatim>\<open>user_id\<close>.\<close>

definition user_balance :: "db \<Rightarrow> val \<Rightarrow> val option" where
  "user_balance s user_id =
     (case split_first (matches [(''user_id'', user_id)]) (docs (get_coll s ''users'')) of
        None \<Rightarrow> None
      | Some (pre, d, post) \<Rightarrow> map_of d ''ficore_credit_balance'')"

text \<open>Whether the validator of the users collection accepts the user's document with
  the balance \<open>v\<close>, and whether a unique index is built on the balance.\<close>

definition accepts_balance :: "db \<Rightarrow> val \<Rightarrow> val \<Rightarrow> bool" where
  "accepts_balance s user_id v =
     (case split_first (matches [(''user_id'', user_id)]) (docs (get_coll s ''users'')) of
        None \<Rightarrow> False
      | Some (pre, d, post) \<Rightarrow>
          accepts (validator (get_coll s ''users'')) (dict_set ''ficore_credit_balance'' v d))"

definition balance_is_unique_key :: "db \<Rightarrow> bool" where
  "balance_is_unique_key s =
     list_ex (\<lambda>ni. is_unique (snd ni) \<and> ''ficore_credit_balance'' \<in> set (map fst (ikey (snd ni))))
       (indexes (get_coll s ''users''))"

text \<open>The balance after an increment the server applies.\<close>

definition incremented :: "val \<Rightarrow> val \<Rightarrow> val" where
  "incremented cur amount = (case num_add cur amount of None \<Rightarrow> cur | Some v \<Rightarrow> v)"

text \<open>The connection after \<open>n\<close> more server calls.\<close>

definition after_calls :: "nat \<Rightarrow> nat option \<Rightarrow> nat option" where
  "after_calls n f = map_option (\<lambda>k. k - n) f"

lemma key_of_dict_set:
  "k \<notin> set (map fst ks) \<Longrightarrow> key_of ks (dict_set k v d) = key_of ks d"
  by (induction ks) (auto simp: key_of_def get_or_def map_of_dict_set)

lemma not_touches_unique:
  assumes "\<not> list_ex (\<lambda>ni. is_unique (snd ni) \<and> k \<in> set (map fst (ikey (snd ni)))) ixs"
  shows "\<not> touches_unique ixs d (dict_set k v d)"
  using assms
  by (induction ixs) (auto simp: touches_unique_def key_of_dict_set simp del: set_map)

text \<open>One call, when the server is reached and accepts the new document.\<close>

lemma update_user_balance_applied:
  assumes conn: "faults s \<noteq> Some 0"
      and sf: "split_first (matches [(''user_id'', uid)]) (docs (get_coll s ''users'')) =
                 Some (pre, d, post)"
      and bal: "map_of d ''ficore_credit_balance'' = Some cur"
      and enc: "encodable uid" "encodable a"
      and add: "num_add cur a = Some v"
      and acc: "accepts (validator (get_coll s ''users''))
                  (dict_set ''ficore_credit_balance'' v d)"
      and nu: "\<not> balance_is_unique_key s"
  shows "\<exists>s'. update_user_balance s uid a = (Inr (v \<noteq> cur), s') \<and>
              split_first (matches [(''user_id'', uid)]) (docs (get_coll s' ''users'')) =
                Some (pre, dict_set ''ficore_credit_balance'' v d, post) \<and>
              validator (get_coll s' ''users'') = validator (get_coll s ''users'') \<and>
              indexes (get_coll s' ''users'') = indexes (get_coll s ''users'') \<and>
              faults s' = after_calls 1 (faults s)"
proof -
  let ?flt = "[(''user_id'', uid)]"
  let ?d' = "dict_set ''ficore_credit_balance'' v d"
  let ?c = "get_coll s ''users''"
  define s0 where "s0 = s\<lparr>faults := after_calls 1 (faults s)\<rparr>"
  have c0: "get_coll s0 ''users'' = ?c" by (simp add: s0_def get_coll_faults)
  have ap: "apply_update (Op_inc ''ficore_credit_balance'' a) d = Inr ?d'"
    using bal add num_add_numeric [OF add] by simp
  have same: "?d' = d \<longleftrightarrow> v = cur"
    using bal by (auto simp: dict_set_eq_iff)
  have id: "map_of ?d' ''_id'' = map_of d ''_id''"
    by (simp add: map_of_dict_set)
  have nt: "\<not> touches_unique (indexes ?c) d ?d'"
    using nu unfolding balance_is_unique_key_def by (rule not_touches_unique)
  have pre: "list_all (\<lambda>y. \<not> matches ?flt y) pre" and m: "matches ?flt d"
    and ds: "docs ?c = pre @ d # post"
    using split_first_SomeD [OF sf] by auto
  have m': "matches ?flt ?d'"
    using m by (simp add: matches_dict_set)
  have sf': "split_first (matches ?flt) (pre @ ?d' # post) = Some (pre, ?d', post)"
    using pre m' by (rule split_first_append)
  have triv: "s\<lparr>faults := None\<rparr> = s" if "faults s = None"
    using that by (cases s) simp
  have call: "driver_call s [VDoc ?flt, sent_update (Op_inc ''ficore_credit_balance'' a)] f = f s0"
    for f :: "db \<Rightarrow> (error + nat \<times> nat) \<times> db"
    using conn enc
    by (cases "faults s")
       (auto simp: driver_call_def server_call_def s0_def after_calls_def triv split: nat.splits)
  show ?thesis
  proof (cases "v = cur")
    case True
    then have eq: "?d' = d" using same by blast
    have "update_user_balance s uid a = (Inr False, s0)"
      unfolding update_user_balance_def update_one_def call
      by (simp add: c0 sf ap eq was_modified_def Let_def del: apply_update.simps)
    moreover have "split_first (matches ?flt) (docs (get_coll s0 ''users'')) = Some (pre, ?d', post)"
      using sf eq by (simp add: c0)
    moreover have "validator (get_coll s0 ''users'') = validator ?c"
      and "indexes (get_coll s0 ''users'') = indexes ?c"
      by (simp_all add: c0)
    moreover have "faults s0 = after_calls 1 (faults s)"
      by (simp add: s0_def)
    ultimately show ?thesis
      using True by (intro exI [of _ s0]) simp
  next
    case False
    then have ne: "?d' \<noteq> d" using same by blast
    define s1 where "s1 = put_coll ''users'' (?c\<lparr>docs := pre @ ?d' # post\<rparr>) s0"
    have "update_one ''users'' ?flt (Op_inc ''ficore_credit_balance'' a) s = (Inr (1, 1), s1)"
      unfolding update_one_def call
      using ne id acc nt by (simp add: c0 sf ap Let_def s1_def del: apply_update.simps)
    then have "update_user_balance s uid a = (Inr True, s1)"
      by (simp add: update_user_balance_def was_modified_def)
    moreover have "get_coll s1 ''users'' = ?c\<lparr>docs := pre @ ?d' # post\<rparr>"
      by (simp add: s1_def get_coll_put_coll)
    moreover have "faults s1 = after_calls 1 (faults s)"
      by (simp add: s1_def put_coll_def s0_def)
    ultimately show ?thesis
      using False sf' by (intro exI [of _ s1]) simp
  qed
qed

text \<open>Without a user document of that \<^verbatim>\<open>user_id\<close> nothing is matched: the call returns
  \<^verbatim>\<open>False\<close> and the collections stay as they are.\<close>

lemma update_user_balance_no_user:
  assumes "split_first (matches [(''user_id'', uid)]) (docs (get_coll s ''users'')) = None"
      and "update_user_balance s uid amount = (Inr r, s')"
  shows "r = False \<and> colls s' = colls s"
  using assms
  by (auto simp: update_user_balance_def was_modified_def update_one_def driver_call_def
                 server_call_def Let_def get_coll_faults
           split: option.splits nat.splits if_splits)

text \<open>Two increments by whole numbers, one after the other.\<close>

lemma update_user_balance_twice:
  assumes conn: "faults s \<noteq> Some 0" "faults s \<noteq> Some 1"
      and ub: "user_balance s uid = Some cur"
      and enc: "encodable uid"
      and iv: "int_valued cur = Some b" "int_valued ax = Some x" "int_valued ay = Some y"
      and bd: "\<bar>b\<bar> \<le> 2 ^ 53" "\<bar>x\<bar> \<le> 2 ^ 53" "\<bar>y\<bar> \<le> 2 ^ 53"
              "\<bar>b + x\<bar> \<le> 2 ^ 53" "\<bar>b + x + y\<bar> \<le> 2 ^ 53"
      and acc: "accepts_balance s uid (incremented cur ax)"
               "accepts_balance s uid (incremented (incremented cur ax) ay)"
      and nu: "\<not> balance_is_unique_key s"
  shows "\<exists>s1 s2 v1 v2.
           update_user_balance s uid ax = (Inr (v1 \<noteq> cur), s1) \<and>
           update_user_balance s1 uid ay = (Inr (v2 \<noteq> v1), s2) \<and>
           user_balance s1 uid = Some v1 \<and> user_balance s2 uid = Some v2 \<and>
           v1 = incremented cur ax \<and> v2 = incremented v1 ay \<and>
           int_valued v2 = Some (b + x + y) \<and>
           is_integer v2 = (is_integer cur \<and> is_integer ax \<and> is_integer ay) \<and>
           faults s2 = after_calls 2 (faults s)"
proof -
  let ?flt = "[(''user_id'', uid)]"
  from ub obtain pre d post where
    sf: "split_first (matches ?flt) (docs (get_coll s ''users'')) = Some (pre, d, post)"
    and bal: "map_of d ''ficore_credit_balance'' = Some cur"
    by (auto simp: user_balance_def split: option.splits)
  from num_add_int_valued [OF iv(1) iv(2) bd(1) bd(2) bd(4)] obtain v1 where
    a1: "num_add cur ax = Some v1" and i1: "int_valued v1 = Some (b + x)"
    and k1: "is_integer v1 = (is_integer cur \<and> is_integer ax)"
    by blast
  from num_add_int_valued [OF i1 iv(3) bd(4) bd(3) bd(5)] obtain v2 where
    a2: "num_add v1 ay = Some v2" and i2: "int_valued v2 = Some (b + x + y)"
    and k2: "is_integer v2 = (is_integer v1 \<and> is_integer ay)"
    by blast
  have inc1: "incremented cur ax = v1" and inc2: "incremented v1 ay = v2"
    using a1 a2 by (simp_all add: incremented_def)
  let ?d1 = "dict_set ''ficore_credit_balance'' v1 d"
  let ?d2 = "dict_set ''ficore_credit_balance'' v2 ?d1"
  have acc1: "accepts (validator (get_coll s ''users'')) ?d1"
    using acc(1) sf by (simp add: accepts_balance_def inc1)
  have acc2: "accepts (validator (get_coll s ''users'')) ?d2"
    using acc(2) sf by (simp add: accepts_balance_def inc1 inc2 dict_set_dict_set)
  from update_user_balance_applied
         [OF conn(1) sf bal enc int_valued_encodable [OF iv(2) bd(2)] a1 acc1 nu]
  obtain s1 where
    c1: "update_user_balance s uid ax = (Inr (v1 \<noteq> cur), s1)"
    and sf1: "split_first (matches ?flt) (docs (get_coll s1 ''users'')) = Some (pre, ?d1, post)"
    and vd1: "validator (get_coll s1 ''users'') = validator (get_coll s ''users'')"
    and ix1: "indexes (get_coll s1 ''users'') = indexes (get_coll s ''users'')"
    and f1: "faults s1 = after_calls 1 (faults s)"
    by blast
  have conn1: "faults s1 \<noteq> Some 0"
    using conn by (cases "faults s") (auto simp: f1 after_calls_def)
  have bal1: "map_of ?d1 ''ficore_credit_balance'' = Some v1"
    by (simp add: map_of_dict_set)
  have acc2': "accepts (validator (get_coll s1 ''users'')) ?d2"
    using acc2 by (simp add: vd1)
  have nu1: "\<not> balance_is_unique_key s1"
    using nu by (simp add: balance_is_unique_key_def ix1)
  from update_user_balance_applied
         [OF conn1 sf1 bal1 enc int_valued_encodable [OF iv(3) bd(3)] a2 acc2' nu1]
  obtain s2 where
    c2: "update_user_balance s1 uid ay = (Inr (v2 \<noteq> v1), s2)"
    and sf2: "split_first (matches ?flt) (docs (get_coll s2 ''users'')) = Some (pre, ?d2, post)"
    and f2: "faults s2 = after_calls 1 (faults s1)"
    by blast
  have u1: "user_balance s1 uid = Some v1"
    by (simp add: user_balance_def sf1 map_of_dict_set)
  have u2: "user_balance s2 uid = Some v2"
    by (simp add: user_balance_def sf2 map_of_dict_set)
  have f: "faults s2 = after_calls 2 (faults s)"
    by (cases "faults s") (simp_all add: f1 f2 after_calls_def)
  show ?thesis
    using c1 c2 u1 u2 inc1 inc2 i2 k1 k2 f by blast
qed

lemma incremented_commute:
  assumes iv: "int_valued cur = Some b" "int_valued ax = Some x" "int_valued ay = Some y"
      and bd: "\<bar>b\<bar> \<le> 2 ^ 53" "\<bar>x\<bar> \<le> 2 ^ 53" "\<bar>y\<bar> \<le> 2 ^ 53"
              "\<bar>b + x\<bar> \<le> 2 ^ 53" "\<bar>b + y\<bar> \<le> 2 ^ 53" "\<bar>b + x + y\<bar> \<le> 2 ^ 53"
  shows "incremented (incremented cur ay) ax = incremented (incremented cur ax) ay"
proof -
  from num_add_int_valued [OF iv(1) iv(2) bd(1) bd(2) bd(4)] obtain v1 where
    a1: "num_add cur ax = Some v1" and i1: "int_valued v1 = Some (b + x)"
    and k1: "is_integer v1 = (is_integer cur \<and> is_integer ax)"
    by blast
  from num_add_int_valued [OF i1 iv(3) bd(4) bd(3) bd(6)] obtain v2 where
    a2: "num_add v1 ay = Some v2" and i2: "int_valued v2 = Some (b + x + y)"
    and k2: "is_integer v2 = (is_integer v1 \<and> is_integer ay)"
    by blast
  from num_add_int_valued [OF iv(1) iv(3) bd(1) bd(3) bd(5)] obtain w1 where
    b1: "num_add cur ay = Some w1" and j1: "int_valued w1 = Some (b + y)"
    and l1: "is_integer w1 = (is_integer cur \<and> is_integer ay)"
    by blast
  have bd': "\<bar>b + y + x\<bar> \<le> 2 ^ 53" using bd(6) by (simp add: algebra_simps)
  from num_add_int_valued [OF j1 iv(2) bd(5) bd(2) bd'] obtain w2 where
    b2: "num_add w1 ax = Some w2" and j2: "int_valued w2 = Some (b + y + x)"
    and l2: "is_integer w2 = (is_integer w1 \<and> is_integer ax)"
    by blast
  have "int_valued w2 = Some (b + x + y)" using j2 by (simp add: algebra_simps)
  moreover have "is_integer w2 = is_integer v2" using k1 k2 l1 l2 by blast
  ultimately have "w2 = v2" using i2 by (metis int_valued_inject)
  then show ?thesis using a1 a2 b1 b2 by (simp add: incremented_def)
qed

text \<open>
  C2 (amended). \<open>update_user_balance\<close> hands the signed amount to the server as one
  \<^verbatim>\<open>$inc\<close> on the first user document with the given \<^verbatim>\<open>user_id\<close>: one server call, no
  read of the balance and no check of a sign. Let the stored balance \<open>b\<close> and the two
  amounts \<open>x\<close> and \<open>y\<close> be whole numbers, each stored as an integer or as a double, with
  \<open>b\<close>, \<open>x\<close>, \<open>y\<close> and the sums \<open>b + x\<close>, \<open>b + y\<close>, \<open>b + x + y\<close> at most \<open>2 ^ 53\<close> in size;
  let the connection last for two calls, let no unique index be built on the balance
  and let the validator of the collection accept the user's document with each balance
  the increments produce. Then the two calls succeed in the order \<open>x\<close>, \<open>y\<close> and in the
  order \<open>y\<close>, \<open>x\<close>, the final balance is the same value in both orders, the whole number
  \<open>b + x + y\<close>, each call returns whether it changed the stored balance, and each order
  makes two server calls. The signs of the amounts and of the sums are free.\<close>

theorem update_user_balance_whole_amounts:
  assumes conn: "faults s \<noteq> Some 0" "faults s \<noteq> Some 1"
      and ub: "user_balance s uid = Some cur"
      and enc: "encodable uid"
      and iv: "int_valued cur = Some b" "int_valued ax = Some x" "int_valued ay = Some y"
      and bd: "\<forall>n \<in> {b, x, y, b + x, b + y, b + x + y}. \<bar>n\<bar> \<le> 2 ^ 53"
      and acc: "\<forall>v \<in> {incremented cur ax, incremented cur ay,
                       incremented (incremented cur ax) ay}. accepts_balance s uid v"
      and nu: "\<not> balance_is_unique_key s"
  shows "\<exists>s1 s2 t1 t2 v.
           update_user_balance s uid ax = (Inr (user_balance s1 uid \<noteq> Some cur), s1) \<and>
           update_user_balance s1 uid ay = (Inr (user_balance s2 uid \<noteq> user_balance s1 uid), s2) \<and>
           update_user_balance s uid ay = (Inr (user_balance t1 uid \<noteq> Some cur), t1) \<and>
           update_user_balance t1 uid ax = (Inr (user_balance t2 uid \<noteq> user_balance t1 uid), t2) \<and>
           user_balance s2 uid = Some v \<and> user_balance t2 uid = Some v \<and>
           int_valued v = Some (b + x + y) \<and>
           faults s2 = after_calls 2 (faults s) \<and> faults t2 = after_calls 2 (faults s)"
proof -
  have b1: "\<bar>b\<bar> \<le> 2 ^ 53" and b2: "\<bar>x\<bar> \<le> 2 ^ 53" and b3: "\<bar>y\<bar> \<le> 2 ^ 53"
    and b4: "\<bar>b + x\<bar> \<le> 2 ^ 53" and b5: "\<bar>b + y\<bar> \<le> 2 ^ 53" and b6: "\<bar>b + x + y\<bar> \<le> 2 ^ 53"
    using bd by simp_all
  have b7: "\<bar>b + y + x\<bar> \<le> 2 ^ 53" using b6 by (simp add: algebra_simps)
  have comm: "incremented (incremented cur ay) ax = incremented (incremented cur ax) ay"
    using iv b1 b2 b3 b4 b5 b6 by (rule incremented_commute)
  have a1: "accepts_balance s uid (incremented cur ax)"
    and a2: "accepts_balance s uid (incremented cur ay)"
    and a3: "accepts_balance s uid (incremented (incremented cur ax) ay)"
    using acc by simp_all
  have a4: "accepts_balance s uid (incremented (incremented cur ay) ax)"
    using a3 by (simp add: comm)
  from update_user_balance_twice
         [OF conn ub enc iv(1) iv(2) iv(3) b1 b2 b3 b4 b6 a1 a3 nu]
  obtain s1 s2 v1 v2 where
    c1: "update_user_balance s uid ax = (Inr (v1 \<noteq> cur), s1)"
    and c2: "update_user_balance s1 uid ay = (Inr (v2 \<noteq> v1), s2)"
    and u1: "user_balance s1 uid = Some v1" and u2: "user_balance s2 uid = Some v2"
    and e1: "v1 = incremented cur ax" and e2: "v2 = incremented v1 ay"
    and i2: "int_valued v2 = Some (b + x + y)"
    and f2: "faults s2 = after_calls 2 (faults s)"
    by blast
  from update_user_balance_twice
         [OF conn ub enc iv(1) iv(3) iv(2) b1 b3 b2 b5 b7 a2 a4 nu]
  obtain t1 t2 w1 w2 where
    d1: "update_user_balance s uid ay = (Inr (w1 \<noteq> cur), t1)"
    and d2: "update_user_balance t1 uid ax = (Inr (w2 \<noteq> w1), t2)"
    and x1: "user_balance t1 uid = Some w1" and x2: "user_balance t2 uid = Some w2"
    and g1: "w1 = incremented cur ay" and g2: "w2 = incremented w1 ax"
    and h2: "faults t2 = after_calls 2 (faults s)"
    by blast
  have same: "w2 = v2" using e1 e2 g1 g2 comm by simp
  have "update_user_balance s uid ax = (Inr (user_balance s1 uid \<noteq> Some cur), s1)"
    using c1 u1 by simp
  moreover have "update_user_balance s1 uid ay =
      (Inr (user_balance s2 uid \<noteq> user_balance s1 uid), s2)"
    using c2 u1 u2 by simp
  moreover have "update_user_balance s uid ay = (Inr (user_balance t1 uid \<noteq> Some cur), t1)"
    using d1 x1 by simp
  moreover have "update_user_balance t1 uid ax =
      (Inr (user_balance t2 uid \<noteq> user_balance t1 uid), t2)"
    using d2 x1 x2 by simp
  moreover have "user_balance t2 uid = Some v2" using x2 same by simp
  ultimately show ?thesis
    using u2 i2 f2 h2 by blast
qed

text \<open>The users collection as the registry sets it up, with two users: a balance of
  10.0 and a balance of 0.1 (the double nearest to one tenth).\<close>

definition registered_users :: db where
  "registered_users =
     \<lparr>colls = [(''users'',
         \<lparr>docs = [[(''_id'', VOid 1), (''user_id'', VStr ''u1''),
                    (''ficore_credit_balance'', VDouble (Finite 10))],
                   [(''_id'', VOid 2), (''user_id'', VStr ''u2''),
                    (''ficore_credit_balance'', VDouble (round_double (1 / 10)))]],
          validator = Some users_schema,
          indexes = [id_index,
                     (''user_id_1'', \<lparr>ikey = [(''user_id'', VInt 1)],
                                       info = [(''v'', VInt 2), (''unique'', VBool True)]\<rparr>)]\<rparr>)],
      faults = Some 2, index_calls = []\<rparr>"

definition after_both :: "db \<Rightarrow> val \<Rightarrow> val \<Rightarrow> val \<Rightarrow> db" where
  "after_both s uid a1 a2 = snd (update_user_balance (snd (update_user_balance s uid a1)) uid a2)"

theorem update_user_balance_whole_amounts_witness:
  "\<exists>s1 s2 t1 t2 v.
     update_user_balance registered_users (VStr ''u1'') (VInt 5) =
       (Inr (user_balance s1 (VStr ''u1'') \<noteq> Some (VDouble (Finite 10))), s1) \<and>
     update_user_balance s1 (VStr ''u1'') (VDouble (Finite (- 3))) =
       (Inr (user_balance s2 (VStr ''u1'') \<noteq> user_balance s1 (VStr ''u1'')), s2) \<and>
     update_user_balance registered_users (VStr ''u1'') (VDouble (Finite (- 3))) =
       (Inr (user_balance t1 (VStr ''u1'') \<noteq> Some (VDouble (Finite 10))), t1) \<and>
     update_user_balance t1 (VStr ''u1'') (VInt 5) =
       (Inr (user_balance t2 (VStr ''u1'') \<noteq> user_balance t1 (VStr ''u1'')), t2) \<and>
     user_balance s2 (VStr ''u1'') = Some v \<and> user_balance t2 (VStr ''u1'') = Some v \<and>
     int_valued v = Some (10 + 5 + - 3) \<and>
     faults s2 = after_calls 2 (faults registered_users) \<and>
     faults t2 = after_calls 2 (faults registered_users)"
proof -
  let ?u = "VStr ''u1''"
  have conn: "faults registered_users \<noteq> Some 0" "faults registered_users \<noteq> Some 1"
    by (simp_all add: registered_users_def)
  have ub: "user_balance registered_users ?u = Some (VDouble (Finite 10))"
    by code_simp
  have enc: "encodable ?u" by simp
  have iv: "int_valued (VDouble (Finite 10)) = Some 10" "int_valued (VInt 5) = Some 5"
    "int_valued (VDouble (Finite (- 3))) = Some (- 3)"
    by simp_all
  have bd: "\<forall>n \<in> {10, 5, - 3, 10 + 5, 10 + - 3, 10 + 5 + - 3}. \<bar>n :: int\<bar> \<le> 2 ^ 53"
    by simp
  have i1: "incremented (VDouble (Finite 10)) (VInt 5) = VDouble (Finite 15)"
    by code_simp
  have i2: "incremented (VDouble (Finite 10)) (VDouble (Finite (- 3))) = VDouble (Finite 7)"
    by code_simp
  have i3: "incremented (VDouble (Finite 15)) (VDouble (Finite (- 3))) = VDouble (Finite 12)"
    by code_simp
  have a1: "accepts_balance registered_users ?u (VDouble (Finite 15))" by code_simp
  have a2: "accepts_balance registered_users ?u (VDouble (Finite 7))" by code_simp
  have a3: "accepts_balance registered_users ?u (VDouble (Finite 12))" by code_simp
  have acc: "\<forall>v \<in> {incremented (VDouble (Finite 10)) (VInt 5),
                   incremented (VDouble (Finite 10)) (VDouble (Finite (- 3))),
                   incremented (incremented (VDouble (Finite 10)) (VInt 5))
                     (VDouble (Finite (- 3)))}. accepts_balance registered_users ?u v"
    using a1 a2 a3 by (simp add: i1 i2 i3)
  have nu: "\<not> balance_is_unique_key registered_users" by code_simp
  show ?thesis
    using conn ub enc iv bd acc nu by (rule update_user_balance_whole_amounts)
qed

text \<open>
  C2 (as claimed) fails on doubles, the type the registry declares for the balance:
  each \<^verbatim>\<open>$inc\<close> rounds its sum. From the balance 0.1 the amounts 0.1 and 0.4 give
  0.6000000000000001 in this order and 0.6 in the other; all four calls succeed and
  return \<^verbatim>\<open>True\<close>.\<close>

theorem update_user_balance_order_counterexample:
  "fst (update_user_balance registered_users (VStr ''u2'') (VDouble (round_double (1 / 10)))) =
     Inr True \<and>
   fst (update_user_balance
          (snd (update_user_balance registered_users (VStr ''u2'') (VDouble (round_double (1 / 10)))))
          (VStr ''u2'') (VDouble (round_double (4 / 10)))) = Inr True \<and>
   fst (update_user_balance registered_users (VStr ''u2'') (VDouble (round_double (4 / 10)))) =
     Inr True \<and>
   fst (update_user_balance
          (snd (update_user_balance registered_users (VStr ''u2'') (VDouble (round_double (4 / 10)))))
          (VStr ''u2'') (VDouble (round_double (1 / 10)))) = Inr True \<and>
   user_balance
     (after_both registered_users (VStr ''u2'') (VDouble (round_double (1 / 10)))
        (VDouble (round_double (4 / 10)))) (VStr ''u2'') =
     Some (VDouble (Finite (5404319552844596 / 9007199254740992))) \<and>
   user_balance
     (after_both registered_users (VStr ''u2'') (VDouble (round_double (4 / 10)))
        (VDouble (round_double (1 / 10)))) (VStr ''u2'') =
     Some (VDouble (Finite (5404319552844595 / 9007199254740992)))"
proof -
  let ?u = "VStr ''u2''"
  let ?x = "VDouble (round_double (1 / 10))"
  let ?y = "VDouble (round_double (4 / 10))"
  have c1: "fst (update_user_balance registered_users ?u ?x) = Inr True"
    by code_simp
  have c2: "fst (update_user_balance (snd (update_user_balance registered_users ?u ?x)) ?u ?y) =
      Inr True"
    by code_simp
  have c3: "fst (update_user_balance registered_users ?u ?y) = Inr True"
    by code_simp
  have c4: "fst (update_user_balance (snd (update_user_balance registered_users ?u ?y)) ?u ?x) =
      Inr True"
    by code_simp
  have c5: "user_balance (after_both registered_users ?u ?x ?y) ?u =
      Some (VDouble (Finite (5404319552844596 / 9007199254740992)))"
    by code_simp
  have c6: "user_balance (after_both registered_users ?u ?y ?x) ?u =
      Some (VDouble (Finite (5404319552844595 / 9007199254740992)))"
    by code_simp
  show ?thesis
    using c1 c2 c3 c4 c5 c6 by (intro conjI)
qed

text \<open>The function checks no sign. On the collection above the validator refuses a
  balance below its minimum, so the decrement raises and changes nothing; on a users
  collection without a validator the balance goes below zero.\<close>

definition example_users :: db where
  "example_users =
     \<lparr>colls = [(''users'',
                 \<lparr>docs = [[(''_id'', VOid 1), (''user_id'', VStr ''u1''),
                            (''ficore_credit_balance'', VInt 10)]],
                  validator = None, indexes = [id_index]\<rparr>)],
      faults = None, index_calls = []\<rparr>"

lemma update_user_balance_below_zero:
  "update_user_balance registered_users (VStr ''u1'') (VInt (- 30)) =
     (Inl WriteError, registered_users\<lparr>faults := Some 1\<rparr>) \<and>
   update_user_balance example_users (VStr ''u1'') (VInt (- 30)) =
     (Inr True,
      example_users\<lparr>colls := [(''users'',
         \<lparr>docs = [[(''_id'', VOid 1), (''user_id'', VStr ''u1''),
                    (''ficore_credit_balance'', VInt (- 20))]],
          validator = None, indexes = [id_index]\<rparr>)]\<rparr>)"
proof -
  have a: "update_user_balance registered_users (VStr ''u1'') (VInt (- 30)) =
     (Inl WriteError, registered_users\<lparr>faults := Some 1\<rparr>)"
    by code_simp
  have b: "update_user_balance example_users (VStr ''u1'') (VInt (- 30)) =
     (Inr True,
      example_users\<lparr>colls := [(''users'',
         \<lparr>docs = [[(''_id'', VOid 1), (''user_id'', VStr ''u1''),
                    (''ficore_credit_balance'', VInt (- 20))]],
          validator = None, indexes = [id_index]\<rparr>)]\<rparr>)"
    by code_simp
  show ?thesis using a b by (intro conjI)
qed

subsection \<open>Deleting a shopping list with its items\<close>

text \<open>When no list matches the filter, \<open>delete_shopping_list\<close> returns \<^verbatim>\<open>False\<close> and
  deletes nothing.\<close>

lemma delete_one_zero:
  "delete_one cname flt s = (Inr 0, s') \<Longrightarrow> colls s' = colls s"
  by (auto simp: delete_one_def driver_call_def server_call_def Let_def
           split: option.splits nat.splits if_splits)

lemma delete_shopping_list_not_found:
  assumes "delete_shopping_list s list_id user_id email = (Inr False, s')"
  shows "colls s' = colls s"
proof -
  from assms obtain flt where
    body: "(case delete_one ''shopping_lists'' flt s of
              (Inl e, s1) \<Rightarrow> (Inl e, s1)
            | (Inr deleted_count, s1) \<Rightarrow>
                if deleted_count = 0 then (Inr False, s1)
                else (case delete_many ''shopping_items'' [(''list_id'', list_id)] s1 of
                        (Inl e, s2) \<Rightarrow> (Inl e, s2)
                      | (Inr items_deleted, s2) \<Rightarrow>
                          (case get_shopping_lists_cache_clear of
                             Inl e \<Rightarrow> (Inl e, s2)
                           | Inr _ \<Rightarrow> (Inr True, s2)))) = (Inr False, s')"
    by (auto simp: delete_shopping_list_def in_transaction_def split: if_splits sum.splits)
  obtain r s1 where d: "delete_one ''shopping_lists'' flt s = (r, s1)"
    by (cases "delete_one ''shopping_lists'' flt s")
  from body d have "r = Inr 0 \<and> s1 = s'"
    by (auto simp: get_shopping_lists_cache_clear_def split: sum.splits if_splits prod.splits)
  then show ?thesis using d delete_one_zero by blast
qed

text \<open>\<open>delete_shopping_list\<close> never returns \<^verbatim>\<open>True\<close>: on the path that deleted the list
  and its items, \<^verbatim>\<open>get_shopping_lists.cache_clear()\<close> raises before \<^verbatim>\<open>return True\<close>.\<close>

lemma delete_shopping_list_never_True:
  "fst (delete_shopping_list s list_id user_id email) \<noteq> Inr True"
  by (simp add: delete_shopping_list_def in_transaction_def get_shopping_lists_cache_clear_def
           split: if_splits sum.splits prod.splits)

text \<open>A list \<^verbatim>\<open>L1\<close> with one item, and an item of another list.\<close>

definition example_lists :: "nat option \<Rightarrow> db" where
  "example_lists f =
     \<lparr>colls = [(''shopping_lists'',
                 \<lparr>docs = [[(''_id'', VStr ''L1''), (''name'', VStr ''weekly'')]],
                  validator = None, indexes = [id_index]\<rparr>),
                (''shopping_items'',
                 \<lparr>docs = [[(''_id'', VOid 1), (''list_id'', VStr ''L1''), (''name'', VStr ''milk'')],
                           [(''_id'', VOid 2), (''list_id'', VStr ''L2''), (''name'', VStr ''rice'')]],
                  validator = None, indexes = [id_index]\<rparr>)],
      faults = f, index_calls = []\<rparr>"

text \<open>
  C1. The claim: \<open>delete_shopping_list\<close> either deletes the matching list with all of its
  items and returns \<^verbatim>\<open>True\<close>, or returns \<^verbatim>\<open>False\<close> and deletes nothing, the two deletes
  taking effect atomically. The code at a list that exists: on a healthy connection the
  list and its item are deleted and the call raises AttributeError instead of returning
  \<^verbatim>\<open>True\<close>; on a connection that fails after one more call the list is deleted, its item
  stays, and the call raises the connection error.\<close>

theorem delete_shopping_list_existing_list:
  "delete_shopping_list (example_lists None) (VStr ''L1'') VNull VNull =
     (Inl AttributeError,
      \<lparr>colls = [(''shopping_lists'', \<lparr>docs = [], validator = None, indexes = [id_index]\<rparr>),
                 (''shopping_items'',
                  \<lparr>docs = [[(''_id'', VOid 2), (''list_id'', VStr ''L2''), (''name'', VStr ''rice'')]],
                   validator = None, indexes = [id_index]\<rparr>)],
       faults = None, index_calls = []\<rparr>) \<and>
   delete_shopping_list (example_lists (Some 1)) (VStr ''L1'') VNull VNull =
     (Inl ConnectionFailure,
      \<lparr>colls = [(''shopping_lists'', \<lparr>docs = [], validator = None, indexes = [id_index]\<rparr>),
                 (''shopping_items'',
                  \<lparr>docs = [[(''_id'', VOid 1), (''list_id'', VStr ''L1''), (''name'', VStr ''milk'')],
                            [(''_id'', VOid 2), (''list_id'', VStr ''L2''), (''name'', VStr ''rice'')]],
                   validator = None, indexes = [id_index]\<rparr>)],
       faults = Some 0, index_calls = []\<rparr>)"
  by code_simp

subsection \<open>Creating a shopping list\<close>

text \<open>\<open>create_shopping_list\<close> never returns an identifier: a call that passes the
  required-field check ends in the insert's error or in the AttributeError of
  \<^verbatim>\<open>get_shopping_lists.cache_clear()\<close>.\<close>

lemma create_shopping_list_never_returns:
  "fst (create_shopping_list uuid4 s list_data) \<noteq> Inr i"
  by (simp add: create_shopping_list_def get_shopping_lists_cache_clear_def Let_def
           split: if_splits sum.splits prod.splits)

definition example_list_data :: doc where
  "example_list_data =
     [(''name'', VStr ''weekly''), (''session_id'', VStr ''s1''), (''budget'', VDouble (Finite 50)),
      (''created_at'', VDate 1000), (''updated_at'', VDate 1000), (''total_spent'', VDouble (Finite 0)),
      (''status'', VStr ''active'')]"

definition empty_db :: db where
  "empty_db = \<lparr>colls = [], faults = None, index_calls = []\<rparr>"

text \<open>
  C10. The claim: \<open>create_shopping_list\<close> overwrites a caller-supplied \<^verbatim>\<open>_id\<close> with the
  generated UUID, which becomes the returned identifier, and backfills \<^verbatim>\<open>items\<close> with
  an empty list. The code at a complete list with a caller-supplied \<^verbatim>\<open>_id\<close> and no
  \<^verbatim>\<open>items\<close>: the document is stored under the UUID with \<^verbatim>\<open>items = []\<close>, and the call
  raises AttributeError instead of returning the identifier.\<close>

theorem create_shopping_list_complete_data:
  "create_shopping_list ''0b4f'' empty_db ((''_id'', VStr ''mine'') # example_list_data) =
     (Inl AttributeError,
      \<lparr>colls = [(''shopping_lists'',
                  \<lparr>docs = [(''_id'', VStr ''0b4f'') # example_list_data @ [(''items'', VList [])]],
                   validator = None, indexes = [id_index]\<rparr>)],
       faults = None, index_calls = []\<rparr>)"
  by code_simp

subsection \<open>The balance of a user object\<close>



















subsection \<open>Updates\<close>

text \<open>The document an update by identifier acts on: the first one of the collection whose
  \<^verbatim>\<open>_id\<close> matches.\<close>

definition stored :: "db \<Rightarrow> string \<Rightarrow> val \<Rightarrow> doc option" where
  "stored s cname oid =
     (case split_first (matches [(''_id'', oid)]) (docs (get_coll s cname)) of
        None \<Rightarrow> None
      | Some (pre, d, post) \<Rightarrow> Some d)"

lemma dict_update_same:
  "list_all (\<lambda>kv. map_of d (fst kv) = Some (snd kv)) u \<Longrightarrow> dict_update d u = d"
  by (induction u arbitrary: d) (auto simp: dict_set_same)

lemma map_of_dict_update_other:
  "k \<notin> fst ` set u \<Longrightarrow> map_of (dict_update d u) k = map_of d k"
  by (induction u arbitrary: d) (auto simp: map_of_dict_set)

lemma map_of_dict_update_in:
  "distinct (map fst u) \<Longrightarrow> (k, v) \<in> set u \<Longrightarrow> map_of (dict_update d u) k = Some v"
proof (induction u arbitrary: d)
  case Nil
  then show ?case by simp
next
  case (Cons a u)
  show ?case
  proof (cases "(k, v) = a")
    case True
    then have "k \<notin> fst ` set u" using Cons.prems(1) by force
    then show ?thesis using True by (auto simp: map_of_dict_update_other map_of_dict_set)
  next
    case False
    then have "(k, v) \<in> set u" using Cons.prems(2) by auto
    moreover have "distinct (map fst u)" using Cons.prems(1) by simp
    ultimately show ?thesis using Cons.IH by (cases a) simp
  qed
qed

lemma dict_update_eq_iff:
  assumes "distinct (map fst u)"
  shows "dict_update d u = d \<longleftrightarrow> list_all (\<lambda>kv. map_of d (fst kv) = Some (snd kv)) u"
proof
  assume e: "dict_update d u = d"
  have "map_of d k = Some v" if "(k, v) \<in> set u" for k v
    using map_of_dict_update_in [OF assms that, of d] e by simp
  then show "list_all (\<lambda>kv. map_of d (fst kv) = Some (snd kv)) u"
    by (auto simp: list_all_iff)
next
  assume "list_all (\<lambda>kv. map_of d (fst kv) = Some (snd kv)) u"
  then show "dict_update d u = d" by (rule dict_update_same)
qed

lemma dict_set_mem: "(k, v) \<in> set (dict_set k v u)"
  by (induction u) auto

lemma key_in_dict: "(k, b) \<in> set u \<Longrightarrow> k \<in> fst ` set u"
  by force

lemma map_fst_dict_set:
  "map fst (dict_set k v u) = (if k \<in> set (map fst u) then map fst u else map fst u @ [k])"
  by (induction u) (auto dest: key_in_dict)

lemma dict_set_distinct: "distinct (map fst u) \<Longrightarrow> distinct (map fst (dict_set k v u))"
  by (simp add: map_fst_dict_set del: set_map)

text \<open>A successful \<^verbatim>\<open>$set\<close> by identifier leaves the merged document in place of the
  stored one and reports a modification exactly when the merge changed it.\<close>

lemma set_fields_effect:
  assumes "stored s cname oid = Some d"
      and "was_modified (update_one cname [(''_id'', oid)] (Op_set u) s) = (Inr r, s')"
  shows "stored s' cname oid = Some (dict_update d u) \<and> r = (dict_update d u \<noteq> d)"
proof -
  let ?flt = "[(''_id'', oid)]"
  let ?d' = "dict_update d u"
  from assms(1) obtain pre post where
    sf: "split_first (matches ?flt) (docs (get_coll s cname)) = Some (pre, d, post)"
    by (auto simp: stored_def split: option.splits)
  have ap: "apply_update (Op_set u) d = Inr ?d'" by simp
  from assms(2) obtain r0 where
    u: "update_one cname ?flt (Op_set u) s = (Inr r0, s')" and r: "r = (0 < snd r0)"
    by (auto simp: was_modified_def split: prod.splits sum.splits)
  have pre: "list_all (\<lambda>y. \<not> matches ?flt y) pre" and m: "matches ?flt d"
    using split_first_SomeD [OF sf] by auto
  note found = update_one_found [OF sf ap u]
  have idk: "map_of ?d' ''_id'' = map_of d ''_id''"
    using found by (cases "?d' = d") auto
  have m': "matches ?flt ?d'"
    using m idk by (simp add: matches_def)
  have docs': "docs (get_coll s' cname) = pre @ ?d' # post"
    using found by (cases "?d' = d") auto
  have r0: "snd r0 = (if ?d' = d then 0 else 1)"
    using found by (cases "?d' = d") auto
  have "split_first (matches ?flt) (pre @ ?d' # post) = Some (pre, ?d', post)"
    using pre m' by (rule split_first_append)
  then have "stored s' cname oid = Some ?d'"
    by (simp add: stored_def docs')
  then show ?thesis using r r0 by auto
qed

lemma faulted_colls: "colls (s\<lparr>faults := f\<rparr>) = colls s"
  by simp

lemma update_one_error_colls:
  assumes "update_one cname flt u s = (Inl e, s')"
  shows "colls s' = colls s"
  using assms
  by (auto simp: update_one_def driver_call_def server_call_def Let_def
           split: option.splits nat.splits sum.splits if_splits)

lemma stored_cong: "colls s' = colls s \<Longrightarrow> stored s' cname oid = stored s cname oid"
  by (simp add: stored_def get_coll_def)

text \<open>Whether every given field already has the given value in the document.\<close>

definition unchanged_by :: "doc \<Rightarrow> doc \<Rightarrow> bool" where
  "unchanged_by d upd = list_all (\<lambda>kv. map_of d (fst kv) = Some (snd kv)) upd"

lemma plain_update_effect:
  assumes "distinct (map fst upd)"
      and "stored s cname oid = Some d"
      and "was_modified (update_one cname [(''_id'', oid)] (Op_set upd) s) = (Inr r, s')"
  shows "stored s' cname oid = Some (dict_update d upd) \<and> r = (\<not> unchanged_by d upd)"
  using set_fields_effect [OF assms(2) assms(3)] dict_update_eq_iff [OF assms(1), of d]
  by (simp add: unchanged_by_def)

lemma stamped_update_effect:
  assumes "distinct (map fst upd)"
      and "stored s cname oid = Some d"
      and "was_modified
             (update_one cname [(''_id'', oid)] (Op_set (dict_set ''updated_at'' now upd)) s)
           = (Inr r, s')"
  shows "stored s' cname oid = Some (dict_update d (dict_set ''updated_at'' now upd)) \<and>
         r = (\<not> unchanged_by d (dict_set ''updated_at'' now upd)) \<and>
         (map_of d ''updated_at'' \<noteq> Some now \<longrightarrow> r)"
proof -
  let ?f = "dict_set ''updated_at'' now upd"
  have dis: "distinct (map fst ?f)"
    using assms(1) by (rule dict_set_distinct)
  have eff: "stored s' cname oid = Some (dict_update d ?f) \<and> r = (\<not> unchanged_by d ?f)"
    using dis assms(2) assms(3) by (rule plain_update_effect)
  have "(''updated_at'', now) \<in> set ?f"
    by (rule dict_set_mem)
  then have "unchanged_by d ?f \<Longrightarrow> map_of d ''updated_at'' = Some now"
    by (auto simp: unchanged_by_def list_all_iff)
  with eff show ?thesis by blast
qed

text \<open>A shop with one item and one budget.\<close>

definition example_item :: doc where
  "example_item = [(''_id'', VOid 1), (''name'', VStr ''milk''), (''updated_at'', VDate 1000)]"

definition example_budget :: doc where
  "example_budget = [(''_id'', VOid 7), (''income'', VInt 100)]"

definition example_shop :: db where
  "example_shop =
     \<lparr>colls = [(''shopping_items'',
                 \<lparr>docs = [example_item], validator = None, indexes = [id_index]\<rparr>),
                (''budgets'',
                 \<lparr>docs = [example_budget], validator = None, indexes = [id_index]\<rparr>)],
      faults = None, index_calls = []\<rparr>"

text \<open>
  C5 as claimed fails in both halves. Updating the item with the name it already has
  returns \<^verbatim>\<open>True\<close>, because \<open>update_shopping_item\<close> adds \<^verbatim>\<open>updated_at\<close> to the fields it
  sets; and \<open>update_budget\<close> stores no timestamp at all.\<close>

theorem update_identical_values_counterexample:
  "map_of example_item ''name'' = Some (VStr ''milk'') \<and>
   update_shopping_item (VDate 2000) example_shop (VOid 1) [(''name'', VStr ''milk'')] =
     (Inr True,
      example_shop\<lparr>colls :=
        [(''shopping_items'',
          \<lparr>docs = [[(''_id'', VOid 1), (''name'', VStr ''milk''), (''updated_at'', VDate 2000)]],
           validator = None, indexes = [id_index]\<rparr>),
         (''budgets'', \<lparr>docs = [example_budget], validator = None, indexes = [id_index]\<rparr>)]\<rparr>) \<and>
   update_budget example_shop (VOid 7) [(''income'', VInt 120)] =
     (Inr True,
      example_shop\<lparr>colls :=
        [(''shopping_items'', \<lparr>docs = [example_item], validator = None, indexes = [id_index]\<rparr>),
         (''budgets'',
          \<lparr>docs = [[(''_id'', VOid 7), (''income'', VInt 120)]],
           validator = None, indexes = [id_index]\<rparr>)]\<rparr>)"
  by code_simp

text \<open>
  C5, amended. For an identifier that \<^verbatim>\<open>ObjectId\<close> accepts, fields with distinct names and
  a call that returns: \<open>update_budget\<close>, \<open>update_bill\<close> and \<open>update_bill_reminder\<close> merge
  the given fields into the stored document, stamp nothing, and return \<^verbatim>\<open>True\<close> exactly
  when some given field did not already have the given value (identical values:
  \<^verbatim>\<open>False\<close>; a new value: \<^verbatim>\<open>True\<close>). \<open>update_shopping_item\<close> merges the given fields
  together with \<^verbatim>\<open>updated_at\<close> = now and returns \<^verbatim>\<open>True\<close> exactly when one of these did
  not already have its value, so with identical values it returns \<^verbatim>\<open>True\<close> whenever the
  stored \<^verbatim>\<open>updated_at\<close> is not the current time. \<open>update_credit_request\<close> merges like
  \<open>update_shopping_item\<close> when it returns \<^verbatim>\<open>True\<close> and leaves the document as it is when
  it returns \<^verbatim>\<open>False\<close>.\<close>

theorem update_reports_modification:
  assumes "ObjectId s ident = Inr oid" and "distinct (map fst upd)"
  shows
    "(stored s ''budgets'' oid = Some d \<and> update_budget s ident upd = (Inr r, s')
        \<longrightarrow> stored s' ''budgets'' oid = Some (dict_update d upd) \<and>
            r = (\<not> unchanged_by d upd)) \<and>
     (stored s ''bills'' oid = Some d \<and> update_bill s ident upd = (Inr r, s')
        \<longrightarrow> stored s' ''bills'' oid = Some (dict_update d upd) \<and>
            r = (\<not> unchanged_by d upd)) \<and>
     (stored s ''bill_reminders'' oid = Some d \<and> update_bill_reminder s ident upd = (Inr r, s')
        \<longrightarrow> stored s' ''bill_reminders'' oid = Some (dict_update d upd) \<and>
            r = (\<not> unchanged_by d upd)) \<and>
     (stored s ''shopping_items'' oid = Some d \<and>
      update_shopping_item now s ident upd = (Inr r, s')
        \<longrightarrow> stored s' ''shopping_items'' oid =
              Some (dict_update d (dict_set ''updated_at'' now upd)) \<and>
            r = (\<not> unchanged_by d (dict_set ''updated_at'' now upd)) \<and>
            (map_of d ''updated_at'' \<noteq> Some now \<longrightarrow> r)) \<and>
     (stored s ''credit_requests'' oid = Some d \<and>
      update_credit_request now s ident upd = (Inr r, s')
        \<longrightarrow> stored s' ''credit_requests'' oid =
              Some (if r then dict_update d (dict_set ''updated_at'' now upd) else d) \<and>
            (r \<longrightarrow> \<not> unchanged_by d (dict_set ''updated_at'' now upd)))"
proof -
  have c1: "stored s ''budgets'' oid = Some d \<and> update_budget s ident upd = (Inr r, s')
        \<longrightarrow> stored s' ''budgets'' oid = Some (dict_update d upd) \<and>
            r = (\<not> unchanged_by d upd)"
  proof
    assume a: "stored s ''budgets'' oid = Some d \<and> update_budget s ident upd = (Inr r, s')"
    then have "was_modified (update_one ''budgets'' [(''_id'', oid)] (Op_set upd) s) = (Inr r, s')"
      using assms(1) by (simp add: update_budget_def)
    with plain_update_effect [OF assms(2)] a
    show "stored s' ''budgets'' oid = Some (dict_update d upd) \<and> r = (\<not> unchanged_by d upd)"
      by blast
  qed
  have c2: "stored s ''bills'' oid = Some d \<and> update_bill s ident upd = (Inr r, s')
        \<longrightarrow> stored s' ''bills'' oid = Some (dict_update d upd) \<and>
            r = (\<not> unchanged_by d upd)"
  proof
    assume a: "stored s ''bills'' oid = Some d \<and> update_bill s ident upd = (Inr r, s')"
    then have "was_modified (update_one ''bills'' [(''_id'', oid)] (Op_set upd) s) = (Inr r, s')"
      using assms(1) by (simp add: update_bill_def)
    with plain_update_effect [OF assms(2)] a
    show "stored s' ''bills'' oid = Some (dict_update d upd) \<and> r = (\<not> unchanged_by d upd)"
      by blast
  qed
  have c3: "stored s ''bill_reminders'' oid = Some d \<and>
            update_bill_reminder s ident upd = (Inr r, s')
        \<longrightarrow> stored s' ''bill_reminders'' oid = Some (dict_update d upd) \<and>
            r = (\<not> unchanged_by d upd)"
  proof
    assume a: "stored s ''bill_reminders'' oid = Some d \<and>
               update_bill_reminder s ident upd = (Inr r, s')"
    then have "was_modified (update_one ''bill_reminders'' [(''_id'', oid)] (Op_set upd) s)
               = (Inr r, s')"
      using assms(1) by (simp add: update_bill_reminder_def)
    with plain_update_effect [OF assms(2)] a
    show "stored s' ''bill_reminders'' oid = Some (dict_update d upd) \<and>
          r = (\<not> unchanged_by d upd)"
      by blast
  qed
  let ?f = "dict_set ''updated_at'' now upd"
  have c4: "stored s ''shopping_items'' oid = Some d \<and>
            update_shopping_item now s ident upd = (Inr r, s')
        \<longrightarrow> stored s' ''shopping_items'' oid = Some (dict_update d ?f) \<and>
            r = (\<not> unchanged_by d ?f) \<and> (map_of d ''updated_at'' \<noteq> Some now \<longrightarrow> r)"
  proof
    assume a: "stored s ''shopping_items'' oid = Some d \<and>
               update_shopping_item now s ident upd = (Inr r, s')"
    then have "was_modified (update_one ''shopping_items'' [(''_id'', oid)] (Op_set ?f) s)
               = (Inr r, s')"
      using assms(1) by (simp add: update_shopping_item_def)
    with stamped_update_effect [OF assms(2)] a
    show "stored s' ''shopping_items'' oid = Some (dict_update d ?f) \<and>
          r = (\<not> unchanged_by d ?f) \<and> (map_of d ''updated_at'' \<noteq> Some now \<longrightarrow> r)"
      by blast
  qed
  have c5: "stored s ''credit_requests'' oid = Some d \<and>
            update_credit_request now s ident upd = (Inr r, s')
        \<longrightarrow> stored s' ''credit_requests'' oid = Some (if r then dict_update d ?f else d) \<and>
            (r \<longrightarrow> \<not> unchanged_by d ?f)"
  proof
    assume a: "stored s ''credit_requests'' oid = Some d \<and>
               update_credit_request now s ident upd = (Inr r, s')"
    obtain x t where u: "update_one ''credit_requests'' [(''_id'', oid)] (Op_set ?f) s = (x, t)"
      by (cases "update_one ''credit_requests'' [(''_id'', oid)] (Op_set ?f) s")
    show "stored s' ''credit_requests'' oid = Some (if r then dict_update d ?f else d) \<and>
          (r \<longrightarrow> \<not> unchanged_by d ?f)"
    proof (cases x)
      case (Inl e)
      with a u assms(1) have "r = False" "s' = t"
        by (simp_all add: update_credit_request_def)
      moreover have "colls t = colls s"
        using u Inl update_one_error_colls by blast
      then have "stored t ''credit_requests'' oid = stored s ''credit_requests'' oid"
        by (rule stored_cong)
      ultimately show ?thesis using a by simp
    next
      case (Inr mm)
      with a u assms(1) have rs: "r = (0 < snd mm)" "s' = t"
        by (auto simp: update_credit_request_def split: prod.splits)
      with u Inr have "was_modified (update_one ''credit_requests'' [(''_id'', oid)] (Op_set ?f) s)
                       = (Inr r, s')"
        by (simp add: was_modified_def split: prod.splits)
      with stamped_update_effect [OF assms(2)] a
      have e: "stored s' ''credit_requests'' oid = Some (dict_update d ?f)"
        and q: "r = (\<not> unchanged_by d ?f)"
        by blast+
      have "unchanged_by d ?f \<Longrightarrow> dict_update d ?f = d"
        unfolding unchanged_by_def by (rule dict_update_same)
      with e q show ?thesis by auto
    qed
  qed
  show ?thesis using c1 c2 c3 c4 c5 by (intro conjI)
qed

text \<open>One record with income 100, last updated at time 1000, stored under the same
  identifier in each of the five collections.\<close>

definition example_record :: doc where
  "example_record = [(''_id'', VOid 7), (''income'', VInt 100), (''updated_at'', VDate 1000)]"

definition example_ledger :: db where
  "example_ledger =
     \<lparr>colls = map (\<lambda>cname. (cname, \<lparr>docs = [example_record], validator = None,
                                      indexes = [id_index]\<rparr>))
                  [''budgets'', ''bills'', ''bill_reminders'', ''shopping_items'',
                   ''credit_requests''],
      faults = None, index_calls = []\<rparr>"

theorem update_reports_modification_witness:
  "update_budget example_ledger (VStr ''000000000000000000000007'') [(''income'', VInt 100)]
     = (Inr False, example_ledger) \<and>
   fst (update_budget example_ledger (VStr ''000000000000000000000007'') [(''income'', VInt 120)])
     = Inr True \<and>
   stored (snd (update_budget example_ledger (VStr ''000000000000000000000007'')
                  [(''income'', VInt 120)])) ''budgets'' (VOid 7)
     = Some (dict_update example_record [(''income'', VInt 120)]) \<and>
   update_bill example_ledger (VStr ''000000000000000000000007'') [(''income'', VInt 100)]
     = (Inr False, example_ledger) \<and>
   update_bill_reminder example_ledger (VStr ''000000000000000000000007'') [(''income'', VInt 100)]
     = (Inr False, example_ledger) \<and>
   fst (update_shopping_item (VDate 2000) example_ledger (VStr ''000000000000000000000007'')
          [(''income'', VInt 100)]) = Inr True \<and>
   stored (snd (update_shopping_item (VDate 2000) example_ledger
                  (VStr ''000000000000000000000007'') [(''income'', VInt 100)]))
      ''shopping_items'' (VOid 7)
     = Some [(''_id'', VOid 7), (''income'', VInt 100), (''updated_at'', VDate 2000)] \<and>
   fst (update_credit_request (VDate 2000) example_ledger (VStr ''000000000000000000000007'')
          [(''income'', VInt 100)]) = Inr True"
proof -
  let ?id = "VStr ''000000000000000000000007''"
  let ?same = "[(''income'', VInt 100)]"
  let ?new = "[(''income'', VInt 120)]"
  have oid: "ObjectId example_ledger ?id = Inr (VOid 7)"
    by code_simp
  have d1: "distinct (map fst ?same)" and d2: "distinct (map fst ?new)"
    by simp_all
  have st: "stored example_ledger ''budgets'' (VOid 7) = Some example_record"
           "stored example_ledger ''bills'' (VOid 7) = Some example_record"
           "stored example_ledger ''bill_reminders'' (VOid 7) = Some example_record"
           "stored example_ledger ''shopping_items'' (VOid 7) = Some example_record"
           "stored example_ledger ''credit_requests'' (VOid 7) = Some example_record"
    by code_simp+
  have b1: "update_budget example_ledger ?id ?same = (Inr False, example_ledger)"
    by code_simp
  have f2: "fst (update_budget example_ledger ?id ?new) = Inr True"
    by code_simp
  then have b2: "update_budget example_ledger ?id ?new
                 = (Inr True, snd (update_budget example_ledger ?id ?new))"
    by (simp add: prod_eq_iff)
  have b3: "update_bill example_ledger ?id ?same = (Inr False, example_ledger)"
    by code_simp
  have b4: "update_bill_reminder example_ledger ?id ?same = (Inr False, example_ledger)"
    by code_simp
  have f5: "fst (update_shopping_item (VDate 2000) example_ledger ?id ?same) = Inr True"
    by code_simp
  then have b5: "update_shopping_item (VDate 2000) example_ledger ?id ?same
                 = (Inr True, snd (update_shopping_item (VDate 2000) example_ledger ?id ?same))"
    by (simp add: prod_eq_iff)
  have f6: "fst (update_credit_request (VDate 2000) example_ledger ?id ?same) = Inr True"
    by code_simp
  then have b6: "update_credit_request (VDate 2000) example_ledger ?id ?same
                 = (Inr True, snd (update_credit_request (VDate 2000) example_ledger ?id ?same))"
    by (simp add: prod_eq_iff)
  have stamped: "dict_update example_record (dict_set ''updated_at'' (VDate 2000) ?same)
                 = [(''_id'', VOid 7), (''income'', VInt 100), (''updated_at'', VDate 2000)]"
    by code_simp
  note same = update_reports_modification [OF oid d1]
  note new = update_reports_modification [OF oid d2]
  have c2: "stored (snd (update_budget example_ledger ?id ?new)) ''budgets'' (VOid 7)
            = Some (dict_update example_record ?new)"
    using new [THEN conjunct1, rule_format, OF conjI [OF st(1) b2]] by simp
  have c3: "False = (\<not> unchanged_by example_record ?same)"
    using same [THEN conjunct2, THEN conjunct1, rule_format, OF conjI [OF st(2) b3]] by simp
  have c4: "False = (\<not> unchanged_by example_record ?same)"
    using same [THEN conjunct2, THEN conjunct2, THEN conjunct1, rule_format,
                OF conjI [OF st(3) b4]] by simp
  have c5: "stored (snd (update_shopping_item (VDate 2000) example_ledger ?id ?same))
              ''shopping_items'' (VOid 7)
            = Some (dict_update example_record (dict_set ''updated_at'' (VDate 2000) ?same))"
    using same [THEN conjunct2, THEN conjunct2, THEN conjunct2, THEN conjunct1, rule_format,
                OF conjI [OF st(4) b5]] by simp
  have c6: "\<not> unchanged_by example_record (dict_set ''updated_at'' (VDate 2000) ?same)"
    using same [THEN conjunct2, THEN conjunct2, THEN conjunct2, THEN conjunct2, rule_format,
                OF conjI [OF st(5) b6]] by simp
  have c5': "stored (snd (update_shopping_item (VDate 2000) example_ledger ?id ?same))
               ''shopping_items'' (VOid 7)
             = Some [(''_id'', VOid 7), (''income'', VInt 100), (''updated_at'', VDate 2000)]"
    using c5 stamped by simp
  show ?thesis
    using b1 f2 c2 b3 b4 f5 c5' f6 by (intro conjI)
qed

end
